theory Spec2Isabelle
  imports Complex_Main "HOL-Library.AList"
begin

section \<open>Tables\<close>

text \<open>
  The notebook \<^verbatim>\<open>bokeh_explanation.ipynb\<close> is a straight-line script: it turns four
  dictionaries of sample data into data frames, converts their \<^verbatim>\<open>date\<close> column to
  datetime, and builds five figures by calls into a plotting library. A data frame is
  embedded as the association list of its columns, in column order; a cell holds a
  string, a number or a datetime.
\<close>

datatype timestamp = Timestamp nat nat nat

datatype cell = StrV string | FloatV real | IntV int | DatetimeV timestamp

type_synonym dataframe = "(string \<times> cell list) list"

datatype error = KeyError string | ParseError

fun seq :: "error + 'a \<Rightarrow> ('a \<Rightarrow> error + 'b) \<Rightarrow> error + 'b" where
  "seq (Inl e) f = Inl e"
| "seq (Inr x) f = f x"

text \<open>\<^verbatim>\<open>pd.DataFrame.from_dict(d)\<close>: the dictionary's keys become the columns.\<close>

definition from_dict :: "(string \<times> cell list) list \<Rightarrow> dataframe" where
  "from_dict d = d"

text \<open>\<^verbatim>\<open>df[k]\<close> raises KeyError when the frame has no column \<open>k\<close>.\<close>

definition getitem :: "dataframe \<Rightarrow> string \<Rightarrow> error + cell list" where
  "getitem df k = (case map_of df k of None \<Rightarrow> Inl (KeyError k) | Some c \<Rightarrow> Inr c)"

text \<open>\<^verbatim>\<open>df[k] = c\<close> replaces the column in place, or appends a new one.\<close>

definition setitem :: "dataframe \<Rightarrow> string \<Rightarrow> cell list \<Rightarrow> dataframe" where
  "setitem df k c = AList.update k c df"

definition columns :: "dataframe \<Rightarrow> string list" where
  "columns df = map fst df"

definition head :: "nat \<Rightarrow> dataframe \<Rightarrow> dataframe" where
  "head n df = map (\<lambda>(k, c). (k, take n c)) df"

text \<open>
  Modelled from the spec: the date conversion \<^verbatim>\<open>pd.to_datetime\<close> belongs to the data
  library, which is not part of the repository; the notebook only calls it, with default
  arguments. The spec describes it as normalising a date-like field to a temporal type,
  failing with a parse error when a value cannot be converted. The library's conversion
  of one non-temporal value is the parameter \<open>conv\<close> (\<open>None\<close>: cannot be converted); a
  value that is already temporal is kept. The first value that cannot be converted ends
  the conversion of the column.
\<close>

fun convert_cell :: "(cell \<Rightarrow> timestamp option) \<Rightarrow> cell \<Rightarrow> error + cell" where
  "convert_cell conv (DatetimeV t) = Inr (DatetimeV t)"
| "convert_cell conv c = (case conv c of None \<Rightarrow> Inl ParseError | Some t \<Rightarrow> Inr (DatetimeV t))"

fun to_datetime :: "(cell \<Rightarrow> timestamp option) \<Rightarrow> cell list \<Rightarrow> error + cell list" where
  "to_datetime conv [] = Inr []"
| "to_datetime conv (c # cs) =
     seq (convert_cell conv c) (\<lambda>d. seq (to_datetime conv cs) (\<lambda>ds. Inr (d # ds)))"

text \<open>One statement \<^verbatim>\<open>df["date"]=pd.to_datetime(df["date"])\<close> of the second code cell.\<close>

definition normalize_date :: "(cell \<Rightarrow> timestamp option) \<Rightarrow> dataframe \<Rightarrow> error + dataframe" where
  "normalize_date conv df =
     seq (getitem df ''date'') (\<lambda>c. seq (to_datetime conv c) (\<lambda>d. Inr (setitem df ''date'' d)))"

definition is_datetime :: "cell \<Rightarrow> bool" where
  "is_datetime c = (case c of DatetimeV t \<Rightarrow> True | _ \<Rightarrow> False)"

section \<open>Figures\<close>

text \<open>
  The plotting library is not part of the repository either. Each of its calls is
  embedded as the record of what the notebook passes to it: a figure keeps the keyword
  arguments it was created with, the attributes the notebook assigns, the renderers in
  the order the draw calls added them, the legend entries in the order their labels
  first appeared, and the tools added later. A keyword argument the notebook leaves out
  is \<open>None\<close>.
\<close>

record column_data_source =
  data :: dataframe

text \<open>
  \<^verbatim>\<open>ColumnDataSource(df)\<close> exposes the frame's columns by name, after a first column
  that holds the frame's index: the row numbers, under the name \<^verbatim>\<open>index\<close>, or
  \<^verbatim>\<open>level_0\<close> when the frame has a column \<^verbatim>\<open>index\<close> already (a frame with columns
  of both names is outside this embedding). The number of rows is the length of the
  frame's first column.
\<close>

definition nrows :: "dataframe \<Rightarrow> nat" where
  "nrows df = (case df of [] \<Rightarrow> 0 | (k, c) # cs \<Rightarrow> length c)"

definition index_name :: "dataframe \<Rightarrow> string" where
  "index_name df = (if ''index'' \<in> set (map fst df) then ''level_0'' else ''index'')"

definition ColumnDataSource :: "dataframe \<Rightarrow> column_data_source" where
  "ColumnDataSource df =
     \<lparr>data = (index_name df, map (\<lambda>n. IntV (int n)) [0..<nrows df]) # df\<rparr>"

datatype glyph = Line

record line_kw =
  line_width :: "real option"
  alpha :: "real option"
  color :: "string option"
  muted_color :: "string option"
  muted_alpha :: "real option"
  legend_label :: "string option"

definition no_kw :: line_kw where
  "no_kw = \<lparr>line_width = None, alpha = None, color = None, muted_color = None,
            muted_alpha = None, legend_label = None\<rparr>"

record glyph_renderer =
  glyph :: glyph
  x_field :: string
  y_field :: string
  source :: column_data_source
  style :: line_kw
  muted :: bool
  visible :: bool

datatype muted_policy = Show | Ignore

datatype click_policy = Mute | Hide

record hover_tool =
  tooltips :: "(string \<times> string) list"
  formatters :: "(string \<times> string) list"
  muted_policy :: muted_policy
  mode :: string

text \<open>
  \<^verbatim>\<open>HoverTool(tooltips=..., formatters=..., muted_policy=..., mode=...)\<close>. The notebook
  passes \<^verbatim>\<open>muted_policy\<close> on the last figure only, and says of it: "Default is show".
\<close>

definition HoverTool ::
  "(string \<times> string) list \<Rightarrow> (string \<times> string) list \<Rightarrow> muted_policy option \<Rightarrow> string \<Rightarrow> hover_tool" where
  "HoverTool tt fm mp md =
     \<lparr>tooltips = tt, formatters = fm,
      muted_policy = (case mp of None \<Rightarrow> Show | Some p \<Rightarrow> p), mode = md\<rparr>"

record figure =
  width :: nat
  height :: nat
  tools :: "string list option"
  active_scroll :: "string option"
  x_axis_type :: "string option"
  title_text :: "string option"
  xaxis_axis_label :: "string option"
  yaxis_axis_label :: "string option"
  renderers :: "glyph_renderer list"
  legend_items :: "(string \<times> nat list) list"
  added_tools :: "hover_tool list"
  legend_location :: "string option"
  legend_click_policy :: "click_policy option"

definition new_figure ::
  "nat \<Rightarrow> nat \<Rightarrow> string list option \<Rightarrow> string option \<Rightarrow> string option \<Rightarrow> figure" where
  "new_figure w h tls sc xt =
     \<lparr>width = w, height = h, tools = tls, active_scroll = sc, x_axis_type = xt,
      title_text = None, xaxis_axis_label = None, yaxis_axis_label = None,
      renderers = [], legend_items = [], added_tools = [],
      legend_location = None, legend_click_policy = None\<rparr>"

text \<open>
  A legend label that the legend already has gets the new renderer added to its entry;
  a new label gets a new entry after the others. Renderers are named by their position
  in the figure's list.
\<close>

definition add_legend :: "string \<Rightarrow> nat \<Rightarrow> (string \<times> nat list) list \<Rightarrow> (string \<times> nat list) list" where
  "add_legend l i items =
     (if l \<in> set (map fst items)
      then map (\<lambda>(k, rs). if k = l then (k, rs @ [i]) else (k, rs)) items
      else items @ [(l, [i])])"

text \<open>\<^verbatim>\<open>fig.line(x, y, source=..., **kw)\<close>: one more renderer, after those already there.\<close>

definition line :: "figure \<Rightarrow> string \<Rightarrow> string \<Rightarrow> column_data_source \<Rightarrow> line_kw \<Rightarrow> figure" where
  "line f xf yf src kw =
     f\<lparr>renderers := renderers f @
          [\<lparr>glyph = Line, x_field = xf, y_field = yf, source = src, style = kw,
            muted = False, visible = True\<rparr>],
       legend_items :=
          (case legend_label kw of
             None \<Rightarrow> legend_items f
           | Some l \<Rightarrow> add_legend l (length (renderers f)) (legend_items f))\<rparr>"

definition add_tools :: "figure \<Rightarrow> hover_tool \<Rightarrow> figure" where
  "add_tools f t = f\<lparr>added_tools := added_tools f @ [t]\<rparr>"

section \<open>The notebook\<close>

text \<open>
  The notebook's variables. Every code cell is a function on this state; the second
  cell, which converts the dates, can fail.
\<close>

record state =
  apple :: dataframe
  google :: dataframe
  ibm :: dataframe
  micro :: dataframe
  our_tools :: "string list"
  transformed_apple :: column_data_source
  transformed_google :: column_data_source
  transformed_ibm :: column_data_source
  transformed_micro :: column_data_source
  fig :: figure
  fig1 :: figure
  fig2 :: figure
  fig3 :: figure
  fig4 :: figure
  stdout :: "dataframe list"
  shown :: "figure list"

text \<open>
  Second code cell. \<open>AAPL\<close>, \<open>GOOG\<close>, \<open>IBM\<close> and \<open>MSFT\<close> are the sample data the
  notebook imports; they are parameters here.
\<close>

definition cell2 ::
  "(cell \<Rightarrow> timestamp option) \<Rightarrow> dataframe \<Rightarrow> dataframe \<Rightarrow> dataframe \<Rightarrow> dataframe \<Rightarrow>
   state \<Rightarrow> error + state" where
  "cell2 conv AAPL GOOG IBM MSFT s =
     (let s = s\<lparr>apple := from_dict AAPL\<rparr>;
          s = s\<lparr>google := from_dict GOOG\<rparr>;
          s = s\<lparr>ibm := from_dict IBM\<rparr>;
          s = s\<lparr>micro := from_dict MSFT\<rparr>;
          s = s\<lparr>stdout := stdout s @ [head 5 (apple s)]\<rparr>
      in seq (normalize_date conv (apple s)) (\<lambda>a. let s = s\<lparr>apple := a\<rparr> in
         seq (normalize_date conv (google s)) (\<lambda>g. let s = s\<lparr>google := g\<rparr> in
         seq (normalize_date conv (ibm s)) (\<lambda>i. let s = s\<lparr>ibm := i\<rparr> in
         seq (normalize_date conv (micro s)) (\<lambda>m. Inr (s\<lparr>micro := m\<rparr>))))))"

text \<open>Third code cell: the first plot.\<close>

definition cell3 :: "state \<Rightarrow> state" where
  "cell3 s =
     (let f = new_figure 1600 500 None None (Some ''datetime'');
          f = f\<lparr>title_text := Some ''Our title''\<rparr>;
          f = f\<lparr>xaxis_axis_label := Some ''Our x-axis label''\<rparr>;
          f = f\<lparr>yaxis_axis_label := Some ''Our y-axis label''\<rparr>;
          ta = ColumnDataSource (apple s);
          f = line f ''date'' ''open'' ta no_kw
      in s\<lparr>transformed_apple := ta, fig := f, shown := shown s @ [f]\<rparr>)"

text \<open>Fourth code cell: pan and wheel zoom.\<close>

definition cell4 :: "state \<Rightarrow> state" where
  "cell4 s =
     (let ot = [''pan'', ''wheel_zoom''];
          f = new_figure 1600 500 (Some ot) (Some ''wheel_zoom'') (Some ''datetime'');
          f = f\<lparr>title_text := Some ''Our interactive title''\<rparr>;
          f = f\<lparr>xaxis_axis_label := Some ''Our interactive x-axis label''\<rparr>;
          f = f\<lparr>yaxis_axis_label := Some ''Our interactive y-axis label''\<rparr>;
          ta = ColumnDataSource (apple s);
          f = line f ''date'' ''open'' ta no_kw
      in s\<lparr>our_tools := ot, transformed_apple := ta, fig1 := f, shown := shown s @ [f]\<rparr>)"

text \<open>Fifth code cell: the hover tool on one series.\<close>

definition cell5 :: "state \<Rightarrow> state" where
  "cell5 s =
     (let ot = [''pan'', ''wheel_zoom''];
          f = new_figure 1600 500 (Some ot) (Some ''wheel_zoom'') (Some ''datetime'');
          f = f\<lparr>title_text := Some ''Our intersecting title''\<rparr>;
          f = f\<lparr>xaxis_axis_label := Some ''Our intersecting x-axis label''\<rparr>;
          f = f\<lparr>yaxis_axis_label := Some ''Our intersecting y-axis label''\<rparr>;
          ta = ColumnDataSource (apple s);
          f = line f ''date'' ''open'' ta no_kw;
          f = add_tools f (HoverTool
                [(''Calendar date'', ''@date{%F}''),
                 (''Opening price'', ''@open{0,}''),
                 (''Daily high'', ''@high{0,}''),
                 (''Daily low'', ''@low{0,}''),
                 (''Closing price'', ''@close{0,}''),
                 (''Trading volume'', ''@volume{0,}'')]
                [(''@date'', ''datetime'')]
                None
                ''vline'')
      in s\<lparr>our_tools := ot, transformed_apple := ta, fig2 := f, shown := shown s @ [f]\<rparr>)"

text \<open>Sixth code cell: the four series on one figure.\<close>

definition cell6 :: "state \<Rightarrow> state" where
  "cell6 s =
     (let ot = [''pan'', ''wheel_zoom''];
          f = new_figure 1600 500 (Some ot) (Some ''wheel_zoom'') (Some ''datetime'');
          f = f\<lparr>title_text := Some ''Our combined title''\<rparr>;
          f = f\<lparr>xaxis_axis_label := Some ''Our combined x-axis label''\<rparr>;
          f = f\<lparr>yaxis_axis_label := Some ''Our combined y-axis label''\<rparr>;
          ta = ColumnDataSource (apple s);
          f = line f ''date'' ''open'' ta
                (no_kw\<lparr>line_width := Some 1.7, alpha := Some 1,
                        color := Some ''crimson'', legend_label := Some ''Apple''\<rparr>);
          tg = ColumnDataSource (google s);
          f = line f ''date'' ''open'' tg
                (no_kw\<lparr>line_width := Some 1.7,
                        color := Some ''olive'', legend_label := Some ''Google''\<rparr>);
          ti = ColumnDataSource (ibm s);
          f = line f ''date'' ''open'' ti
                (no_kw\<lparr>line_width := Some 1.7,
                        color := Some ''fuchsia'', legend_label := Some ''IBM''\<rparr>);
          tm = ColumnDataSource (micro s);
          f = line f ''date'' ''open'' tm
                (no_kw\<lparr>line_width := Some 1.7,
                        color := Some ''black'', legend_label := Some ''Microsoft''\<rparr>);
          f = add_tools f (HoverTool
                [(''Calendar date'', ''@date{%F}''),
                 (''Opening price'', ''@open{0,}''),
                 (''Daily high'', ''@high{0,}''),
                 (''Daily low'', ''@low{0,}''),
                 (''Closing price'', ''@close{0,}''),
                 (''Trading volume'', ''@volume{0,}'')]
                [(''@date'', ''datetime'')]
                None
                ''vline'')
      in s\<lparr>our_tools := ot, transformed_apple := ta, transformed_google := tg,
           transformed_ibm := ti, transformed_micro := tm, fig3 := f,
           shown := shown s @ [f]\<rparr>)"

text \<open>Seventh code cell: the final figure, with muting from the legend.\<close>

definition cell7 :: "state \<Rightarrow> state" where
  "cell7 s =
     (let ot = [''pan'', ''wheel_zoom''];
          f = new_figure 1600 500 (Some ot) (Some ''wheel_zoom'') (Some ''datetime'');
          f = f\<lparr>title_text := Some ''Our final title''\<rparr>;
          f = f\<lparr>xaxis_axis_label := Some ''Our final x-axis label''\<rparr>;
          f = f\<lparr>yaxis_axis_label := Some ''Our final y-axis label''\<rparr>;
          ta = ColumnDataSource (apple s);
          f = line f ''date'' ''open'' ta
                (no_kw\<lparr>line_width := Some 1.7, color := Some ''crimson'', alpha := Some 1,
                        muted_color := Some ''crimson'', muted_alpha := Some 0.2,
                        legend_label := Some ''Apple''\<rparr>);
          tg = ColumnDataSource (google s);
          f = line f ''date'' ''open'' tg
                (no_kw\<lparr>line_width := Some 1.7, color := Some ''olive'', alpha := Some 1,
                        muted_color := Some ''olive'', muted_alpha := Some 0.2,
                        legend_label := Some ''Google''\<rparr>);
          ti = ColumnDataSource (ibm s);
          f = line f ''date'' ''open'' ti
                (no_kw\<lparr>line_width := Some 1.7, color := Some ''fuchsia'', alpha := Some 1,
                        muted_color := Some ''fuchsia'', muted_alpha := Some 0.2,
                        legend_label := Some ''IBM''\<rparr>);
          tm = ColumnDataSource (micro s);
          f = line f ''date'' ''open'' tm
                (no_kw\<lparr>line_width := Some 1.7, color := Some ''black'', alpha := Some 1,
                        muted_color := Some ''black'', muted_alpha := Some 0.2,
                        legend_label := Some ''Microsoft''\<rparr>);
          f = add_tools f (HoverTool
                [(''Calendar date'', ''@date{%F}''),
                 (''Opening price'', ''@open{0,}''),
                 (''Daily high'', ''@high{0,}''),
                 (''Daily low'', ''@low{0,}''),
                 (''Closing price'', ''@close{0,}''),
                 (''Trading volume'', ''@volume{0,}'')]
                [(''@date'', ''datetime'')]
                (Some Ignore)
                ''vline'');
          f = f\<lparr>legend_location := Some ''top_left''\<rparr>;
          f = f\<lparr>legend_click_policy := Some Mute\<rparr>
      in s\<lparr>our_tools := ot, transformed_apple := ta, transformed_google := tg,
           transformed_ibm := ti, transformed_micro := tm, fig4 := f,
           shown := shown s @ [f]\<rparr>)"

text \<open>The cells after the conversion, in the notebook's order, and the whole notebook.\<close>

definition plots :: "state \<Rightarrow> state" where
  "plots s = cell7 (cell6 (cell5 (cell4 (cell3 s))))"

definition notebook ::
  "(cell \<Rightarrow> timestamp option) \<Rightarrow> dataframe \<Rightarrow> dataframe \<Rightarrow> dataframe \<Rightarrow> dataframe \<Rightarrow>
   state \<Rightarrow> error + state" where
  "notebook conv AAPL GOOG IBM MSFT s =
     seq (cell2 conv AAPL GOOG IBM MSFT s) (\<lambda>s. Inr (plots s))"

section \<open>Reading a tooltip\<close>

text \<open>
  A tooltip is a pair of a label and a string \<^verbatim>\<open>@field{format}\<close>; the notebook says
  of it that the braces mark the variable for formatting. The two functions read the
  field and the format out of such a string.
\<close>

definition tooltip_field :: "string \<Rightarrow> string option" where
  "tooltip_field v =
     (case v of
        [] \<Rightarrow> None
      | c # cs \<Rightarrow> if c = CHR ''@'' then Some (takeWhile (\<lambda>c. c \<noteq> CHR ''{'') cs) else None)"

definition tooltip_format :: "string \<Rightarrow> string option" where
  "tooltip_format v =
     (case dropWhile (\<lambda>c. c \<noteq> CHR ''{'') v of
        [] \<Rightarrow> None
      | b # cs \<Rightarrow> Some (takeWhile (\<lambda>c. c \<noteq> CHR ''}'') cs))"

definition tooltip_triples :: "hover_tool \<Rightarrow> (string \<times> string option \<times> string option) list" where
  "tooltip_triples h = map (\<lambda>(l, v). (l, tooltip_field v, tooltip_format v)) (tooltips h)"

text \<open>The fields a hover tool's tooltips refer to.\<close>

definition tooltip_fields :: "hover_tool \<Rightarrow> string option list" where
  "tooltip_fields h = map (\<lambda>(l, v). tooltip_field v) (tooltips h)"

text \<open>
  Modelled from the spec: the sample data is not part of the repository. The spec gives
  its rows the fields date, open, high, low, close, volume and adj_close; the rows the
  notebook prints for Apple have these columns, in this order.
\<close>

definition schema :: "string list" where
  "schema = [''date'', ''open'', ''high'', ''low'', ''close'', ''volume'', ''adj_close'']"

section \<open>Clicking the legend, hovering\<close>

text \<open>
  Modelled from the spec: what a click on a legend entry does, and which series the
  hover tool looks at, is decided by the plotting library as the figure is displayed;
  the notebook only sets the policies. By the spec, with the click policy "mute" a
  click on a legend entry reduces the series' opacity to its muted alpha and a second
  click restores the base alpha; with "hide" a click toggles the series' visibility; the
  hover tool's muted policy says whether a muted series still takes part in the hover
  lookup.
\<close>

definition toggle_at ::
  "(glyph_renderer \<Rightarrow> glyph_renderer) \<Rightarrow> nat list \<Rightarrow> glyph_renderer list \<Rightarrow> glyph_renderer list" where
  "toggle_at g idxs rs = map (\<lambda>(i, r). if i \<in> set idxs then g r else r) (enumerate 0 rs)"

definition click_legend :: "figure \<Rightarrow> string \<Rightarrow> figure" where
  "click_legend f l =
     (case map_of (legend_items f) l of
        None \<Rightarrow> f
      | Some idxs \<Rightarrow>
          (case legend_click_policy f of
             None \<Rightarrow> f
           | Some Mute \<Rightarrow>
               f\<lparr>renderers := toggle_at (\<lambda>r. r\<lparr>muted := \<not> muted r\<rparr>) idxs (renderers f)\<rparr>
           | Some Hide \<Rightarrow>
               f\<lparr>renderers := toggle_at (\<lambda>r. r\<lparr>visible := \<not> visible r\<rparr>) idxs (renderers f)\<rparr>))"

definition displayed_alpha :: "glyph_renderer \<Rightarrow> real option" where
  "displayed_alpha r = (if muted r then muted_alpha (style r) else alpha (style r))"

definition hover_candidates :: "hover_tool \<Rightarrow> figure \<Rightarrow> glyph_renderer list" where
  "hover_candidates h f =
     filter (\<lambda>r. visible r \<and> (muted_policy h = Show \<or> \<not> muted r)) (renderers f)"

text \<open>The renderers of a legend entry.\<close>

definition series :: "figure \<Rightarrow> string \<Rightarrow> glyph_renderer list" where
  "series f l =
     (case map_of (legend_items f) l of
        None \<Rightarrow> []
      | Some idxs \<Rightarrow> map snd (filter (\<lambda>(i, r). i \<in> set idxs) (enumerate 0 (renderers f))))"

text \<open>The legend entries' labels, first entry first.\<close>

definition legend_order :: "figure \<Rightarrow> string list" where
  "legend_order f = map fst (legend_items f)"

text \<open>
  Modelled from the spec: painting is the plotting library's work as the figure is
  displayed. By the spec the order in which the layers were added is their z-order: a
  layer is painted over the layers added before it. The list names the renderers by
  their position in the figure, the one painted first at the head.
\<close>

definition z_order :: "figure \<Rightarrow> nat list" where
  "z_order f = [0..<length (renderers f)]"

section \<open>A run on the rows the notebook prints\<close>

text \<open>
  The notebook prints the first five rows of the Apple table. The theorems below are
  instantiated on these rows, with a conversion that accepts ISO calendar dates
  \<^verbatim>\<open>YYYY-MM-DD\<close>, the form the printed dates have.
\<close>

definition digit :: "char \<Rightarrow> nat option" where
  "digit c = map_of (zip ''0123456789'' [0, 1, 2, 3, 4, 5, 6, 7, 8, 9]) c"

fun digits_value :: "nat \<Rightarrow> string \<Rightarrow> nat option" where
  "digits_value acc [] = Some acc"
| "digits_value acc (c # cs) =
     (case digit c of None \<Rightarrow> None | Some d \<Rightarrow> digits_value (10 * acc + d) cs)"

definition days_in_month :: "nat \<Rightarrow> nat \<Rightarrow> nat" where
  "days_in_month y m =
     (if m = 4 \<or> m = 6 \<or> m = 9 \<or> m = 11 then 30
      else if m = 2 then (if y mod 4 = 0 \<and> (y mod 100 \<noteq> 0 \<or> y mod 400 = 0) then 29 else 28)
      else 31)"

definition iso_date :: "string \<Rightarrow> timestamp option" where
  "iso_date str =
     (if length str = 10 \<and> str ! 4 = CHR ''-'' \<and> str ! 7 = CHR ''-'' then
        (case (digits_value 0 (take 4 str), digits_value 0 (take 2 (drop 5 str)),
               digits_value 0 (drop 8 str)) of
           (Some y, Some m, Some d) \<Rightarrow>
             if 1 \<le> m \<and> m \<le> 12 \<and> 1 \<le> d \<and> d \<le> days_in_month y m
             then Some (Timestamp y m d) else None
         | _ \<Rightarrow> None)
      else None)"

fun iso_conv :: "cell \<Rightarrow> timestamp option" where
  "iso_conv (StrV str) = iso_date str"
| "iso_conv c = None"

definition AAPL_head :: dataframe where
  "AAPL_head =
     [(''date'', [StrV ''2000-03-01'', StrV ''2000-03-02'', StrV ''2000-03-03'',
                  StrV ''2000-03-06'', StrV ''2000-03-07'']),
      (''open'', [FloatV 118.56, FloatV 127.00, FloatV 124.87, FloatV 126.00, FloatV 126.44]),
      (''high'', [FloatV 132.06, FloatV 127.94, FloatV 128.23, FloatV 129.13, FloatV 127.44]),
      (''low'', [FloatV 118.50, FloatV 120.69, FloatV 120.00, FloatV 125.00, FloatV 121.12]),
      (''close'', [FloatV 130.31, FloatV 122.00, FloatV 128.00, FloatV 125.69, FloatV 122.87]),
      (''volume'', [IntV 38478000, IntV 11136800, IntV 11565200, IntV 7520000, IntV 9767600]),
      (''adj_close'', [FloatV 31.68, FloatV 29.66, FloatV 31.12, FloatV 30.56, FloatV 29.87])]"

text \<open>The first two printed rows, with the date of the second written month first.\<close>

definition bad_dates :: dataframe where
  "bad_dates = setitem (head 2 AAPL_head) ''date'' [StrV ''2000-03-01'', StrV ''03/02/2000'']"

text \<open>The state before the first cell: no table, no figure.\<close>

definition init :: state where
  "init =
     \<lparr>apple = [], google = [], ibm = [], micro = [], our_tools = [],
      transformed_apple = ColumnDataSource [], transformed_google = ColumnDataSource [],
      transformed_ibm = ColumnDataSource [], transformed_micro = ColumnDataSource [],
      fig = new_figure 0 0 None None None, fig1 = new_figure 0 0 None None None,
      fig2 = new_figure 0 0 None None None, fig3 = new_figure 0 0 None None None,
      fig4 = new_figure 0 0 None None None, stdout = [], shown = []\<rparr>"

text \<open>
  The dates of the printed rows as datetime values, and the state the second cell
  leaves when each of the four samples is the printed table.
\<close>

definition AAPL_head_dates :: "cell list" where
  "AAPL_head_dates =
     [DatetimeV (Timestamp 2000 3 1), DatetimeV (Timestamp 2000 3 2),
      DatetimeV (Timestamp 2000 3 3), DatetimeV (Timestamp 2000 3 6),
      DatetimeV (Timestamp 2000 3 7)]"

definition sample_state :: state where
  "sample_state =
     init\<lparr>apple := setitem AAPL_head ''date'' AAPL_head_dates,
          google := setitem AAPL_head ''date'' AAPL_head_dates,
          ibm := setitem AAPL_head ''date'' AAPL_head_dates,
          micro := setitem AAPL_head ''date'' AAPL_head_dates,
          stdout := [head 5 AAPL_head]\<rparr>"

section \<open>The plotting cells on a heap of objects\<close>

text \<open>
  In the notebook a table, a data source and a figure are objects that variables
  refer to, and a call can change the object it is given. To say which objects the
  plotting cells change, the cells are embedded a second time, over a heap: a list of
  objects, an address being a position in it, with the notebook's variables bound to
  addresses. A statement is a function on this state, \<open>None\<close> when a variable is not
  bound or refers to an object of the wrong kind; a cell runs its statements in order.
\<close>

datatype obj = Frame dataframe | Source column_data_source | Fig figure | Tuple "string list"

record hstate =
  heap :: "obj list"
  env :: "string \<Rightarrow> nat option"
  h_shown :: "figure list"

definition lookup :: "obj list \<Rightarrow> nat \<Rightarrow> obj option" where
  "lookup h a = (if a < length h then Some (h ! a) else None)"

definition deref :: "hstate \<Rightarrow> string \<Rightarrow> obj option" where
  "deref s v = (case env s v of None \<Rightarrow> None | Some a \<Rightarrow> lookup (heap s) a)"

text \<open>\<^verbatim>\<open>v = <a new object>\<close>: the object gets the next address, the variable is bound to it.\<close>

definition bind_new :: "string \<Rightarrow> obj \<Rightarrow> hstate \<Rightarrow> hstate" where
  "bind_new v ob s = s\<lparr>heap := heap s @ [ob], env := (env s)(v \<mapsto> length (heap s))\<rparr>"

fun run :: "(hstate \<Rightarrow> hstate option) list \<Rightarrow> hstate \<Rightarrow> hstate option" where
  "run [] s = Some s"
| "run (c # cs) s = (case c s of None \<Rightarrow> None | Some s' \<Rightarrow> run cs s')"

text \<open>\<^verbatim>\<open>our_tools="pan", "wheel_zoom"\<close>\<close>

definition assign_tuple :: "string \<Rightarrow> string list \<Rightarrow> hstate \<Rightarrow> hstate option" where
  "assign_tuple v ts s = Some (bind_new v (Tuple ts) s)"

text \<open>
  An assignment to an attribute of the figure a variable refers to, such as
  \<^verbatim>\<open>fig.title.text="Our title"\<close>: the figure object is replaced at its address.
\<close>

definition update_fig :: "string \<Rightarrow> (figure \<Rightarrow> figure) \<Rightarrow> hstate \<Rightarrow> hstate option" where
  "update_fig v g s =
     (case env s v of
        None \<Rightarrow> None
      | Some a \<Rightarrow>
          (case lookup (heap s) a of
             Some (Fig f) \<Rightarrow> Some (s\<lparr>heap := (heap s)[a := Fig (g f)]\<rparr>)
           | _ \<Rightarrow> None))"

text \<open>
  Modelled from the spec: what the plotting library's calls do to the objects they are
  given is the library's code. By the spec a table is wrapped in a source object that
  exposes its columns and is immutable once its dates are converted; a draw call and a
  tool attachment change the figure object in place, adding a layer or a tool; display
  hands the figure to a viewer. So \<^verbatim>\<open>v = figure(...)\<close> and \<^verbatim>\<open>v = ColumnDataSource(t)\<close>
  make a new object, \<^verbatim>\<open>f.line(...)\<close> and \<^verbatim>\<open>f.add_tools(...)\<close> replace the figure at the
  address \<open>f\<close> is bound to, and \<^verbatim>\<open>show(f)\<close> reads it.
\<close>

definition figure_s ::
  "string \<Rightarrow> nat \<Rightarrow> nat \<Rightarrow> string option \<Rightarrow> string option \<Rightarrow> string option \<Rightarrow>
   hstate \<Rightarrow> hstate option" where
  "figure_s v w h tv sc xt s =
     (case tv of
        None \<Rightarrow> Some (bind_new v (Fig (new_figure w h None sc xt)) s)
      | Some t \<Rightarrow>
          (case deref s t of
             Some (Tuple ts) \<Rightarrow> Some (bind_new v (Fig (new_figure w h (Some ts) sc xt)) s)
           | _ \<Rightarrow> None))"

definition ColumnDataSource_s :: "string \<Rightarrow> string \<Rightarrow> hstate \<Rightarrow> hstate option" where
  "ColumnDataSource_s v t s =
     (case deref s t of
        Some (Frame df) \<Rightarrow> Some (bind_new v (Source (ColumnDataSource df)) s)
      | _ \<Rightarrow> None)"

definition line_s ::
  "string \<Rightarrow> string \<Rightarrow> string \<Rightarrow> string \<Rightarrow> line_kw \<Rightarrow> hstate \<Rightarrow> hstate option" where
  "line_s fv xf yf sv kw s =
     (case deref s sv of
        Some (Source src) \<Rightarrow> update_fig fv (\<lambda>f. line f xf yf src kw) s
      | _ \<Rightarrow> None)"

definition add_tools_s :: "string \<Rightarrow> hover_tool \<Rightarrow> hstate \<Rightarrow> hstate option" where
  "add_tools_s fv t s = update_fig fv (\<lambda>f. add_tools f t) s"

definition show_s :: "string \<Rightarrow> hstate \<Rightarrow> hstate option" where
  "show_s fv s =
     (case deref s fv of
        Some (Fig f) \<Rightarrow> Some (s\<lparr>h_shown := h_shown s @ [f]\<rparr>)
      | _ \<Rightarrow> None)"

text \<open>The third to seventh code cell, statement by statement.\<close>

definition cell3_h :: "hstate \<Rightarrow> hstate option" where
  "cell3_h = run
     [figure_s ''fig'' 1600 500 None None (Some ''datetime''),
      update_fig ''fig'' (\<lambda>f. f\<lparr>title_text := Some ''Our title''\<rparr>),
      update_fig ''fig'' (\<lambda>f. f\<lparr>xaxis_axis_label := Some ''Our x-axis label''\<rparr>),
      update_fig ''fig'' (\<lambda>f. f\<lparr>yaxis_axis_label := Some ''Our y-axis label''\<rparr>),
      ColumnDataSource_s ''transformed_apple'' ''apple'',
      line_s ''fig'' ''date'' ''open'' ''transformed_apple'' no_kw,
      show_s ''fig'']"

definition cell4_h :: "hstate \<Rightarrow> hstate option" where
  "cell4_h = run
     [assign_tuple ''our_tools'' [''pan'', ''wheel_zoom''],
      figure_s ''fig1'' 1600 500 (Some ''our_tools'') (Some ''wheel_zoom'') (Some ''datetime''),
      update_fig ''fig1'' (\<lambda>f. f\<lparr>title_text := Some ''Our interactive title''\<rparr>),
      update_fig ''fig1'' (\<lambda>f. f\<lparr>xaxis_axis_label := Some ''Our interactive x-axis label''\<rparr>),
      update_fig ''fig1'' (\<lambda>f. f\<lparr>yaxis_axis_label := Some ''Our interactive y-axis label''\<rparr>),
      ColumnDataSource_s ''transformed_apple'' ''apple'',
      line_s ''fig1'' ''date'' ''open'' ''transformed_apple'' no_kw,
      show_s ''fig1'']"

definition cell5_h :: "hstate \<Rightarrow> hstate option" where
  "cell5_h = run
     [assign_tuple ''our_tools'' [''pan'', ''wheel_zoom''],
      figure_s ''fig2'' 1600 500 (Some ''our_tools'') (Some ''wheel_zoom'') (Some ''datetime''),
      update_fig ''fig2'' (\<lambda>f. f\<lparr>title_text := Some ''Our intersecting title''\<rparr>),
      update_fig ''fig2'' (\<lambda>f. f\<lparr>xaxis_axis_label := Some ''Our intersecting x-axis label''\<rparr>),
      update_fig ''fig2'' (\<lambda>f. f\<lparr>yaxis_axis_label := Some ''Our intersecting y-axis label''\<rparr>),
      ColumnDataSource_s ''transformed_apple'' ''apple'',
      line_s ''fig2'' ''date'' ''open'' ''transformed_apple'' no_kw,
      add_tools_s ''fig2'' (HoverTool
        [(''Calendar date'', ''@date{%F}''),
         (''Opening price'', ''@open{0,}''),
         (''Daily high'', ''@high{0,}''),
         (''Daily low'', ''@low{0,}''),
         (''Closing price'', ''@close{0,}''),
         (''Trading volume'', ''@volume{0,}'')]
        [(''@date'', ''datetime'')]
        None
        ''vline''),
      show_s ''fig2'']"

definition cell6_h :: "hstate \<Rightarrow> hstate option" where
  "cell6_h = run
     [assign_tuple ''our_tools'' [''pan'', ''wheel_zoom''],
      figure_s ''fig3'' 1600 500 (Some ''our_tools'') (Some ''wheel_zoom'') (Some ''datetime''),
      update_fig ''fig3'' (\<lambda>f. f\<lparr>title_text := Some ''Our combined title''\<rparr>),
      update_fig ''fig3'' (\<lambda>f. f\<lparr>xaxis_axis_label := Some ''Our combined x-axis label''\<rparr>),
      update_fig ''fig3'' (\<lambda>f. f\<lparr>yaxis_axis_label := Some ''Our combined y-axis label''\<rparr>),
      ColumnDataSource_s ''transformed_apple'' ''apple'',
      line_s ''fig3'' ''date'' ''open'' ''transformed_apple''
        (no_kw\<lparr>line_width := Some 1.7, alpha := Some 1,
                color := Some ''crimson'', legend_label := Some ''Apple''\<rparr>),
      ColumnDataSource_s ''transformed_google'' ''google'',
      line_s ''fig3'' ''date'' ''open'' ''transformed_google''
        (no_kw\<lparr>line_width := Some 1.7,
                color := Some ''olive'', legend_label := Some ''Google''\<rparr>),
      ColumnDataSource_s ''transformed_ibm'' ''ibm'',
      line_s ''fig3'' ''date'' ''open'' ''transformed_ibm''
        (no_kw\<lparr>line_width := Some 1.7,
                color := Some ''fuchsia'', legend_label := Some ''IBM''\<rparr>),
      ColumnDataSource_s ''transformed_micro'' ''micro'',
      line_s ''fig3'' ''date'' ''open'' ''transformed_micro''
        (no_kw\<lparr>line_width := Some 1.7,
                color := Some ''black'', legend_label := Some ''Microsoft''\<rparr>),
      add_tools_s ''fig3'' (HoverTool
        [(''Calendar date'', ''@date{%F}''),
         (''Opening price'', ''@open{0,}''),
         (''Daily high'', ''@high{0,}''),
         (''Daily low'', ''@low{0,}''),
         (''Closing price'', ''@close{0,}''),
         (''Trading volume'', ''@volume{0,}'')]
        [(''@date'', ''datetime'')]
        None
        ''vline''),
      show_s ''fig3'']"

definition cell7_h :: "hstate \<Rightarrow> hstate option" where
  "cell7_h = run
     [assign_tuple ''our_tools'' [''pan'', ''wheel_zoom''],
      figure_s ''fig4'' 1600 500 (Some ''our_tools'') (Some ''wheel_zoom'') (Some ''datetime''),
      update_fig ''fig4'' (\<lambda>f. f\<lparr>title_text := Some ''Our final title''\<rparr>),
      update_fig ''fig4'' (\<lambda>f. f\<lparr>xaxis_axis_label := Some ''Our final x-axis label''\<rparr>),
      update_fig ''fig4'' (\<lambda>f. f\<lparr>yaxis_axis_label := Some ''Our final y-axis label''\<rparr>),
      ColumnDataSource_s ''transformed_apple'' ''apple'',
      line_s ''fig4'' ''date'' ''open'' ''transformed_apple''
        (no_kw\<lparr>line_width := Some 1.7, color := Some ''crimson'', alpha := Some 1,
                muted_color := Some ''crimson'', muted_alpha := Some 0.2,
                legend_label := Some ''Apple''\<rparr>),
      ColumnDataSource_s ''transformed_google'' ''google'',
      line_s ''fig4'' ''date'' ''open'' ''transformed_google''
        (no_kw\<lparr>line_width := Some 1.7, color := Some ''olive'', alpha := Some 1,
                muted_color := Some ''olive'', muted_alpha := Some 0.2,
                legend_label := Some ''Google''\<rparr>),
      ColumnDataSource_s ''transformed_ibm'' ''ibm'',
      line_s ''fig4'' ''date'' ''open'' ''transformed_ibm''
        (no_kw\<lparr>line_width := Some 1.7, color := Some ''fuchsia'', alpha := Some 1,
                muted_color := Some ''fuchsia'', muted_alpha := Some 0.2,
                legend_label := Some ''IBM''\<rparr>),
      ColumnDataSource_s ''transformed_micro'' ''micro'',
      line_s ''fig4'' ''date'' ''open'' ''transformed_micro''
        (no_kw\<lparr>line_width := Some 1.7, color := Some ''black'', alpha := Some 1,
                muted_color := Some ''black'', muted_alpha := Some 0.2,
                legend_label := Some ''Microsoft''\<rparr>),
      add_tools_s ''fig4'' (HoverTool
        [(''Calendar date'', ''@date{%F}''),
         (''Opening price'', ''@open{0,}''),
         (''Daily high'', ''@high{0,}''),
         (''Daily low'', ''@low{0,}''),
         (''Closing price'', ''@close{0,}''),
         (''Trading volume'', ''@volume{0,}'')]
        [(''@date'', ''datetime'')]
        (Some Ignore)
        ''vline''),
      update_fig ''fig4'' (\<lambda>f. f\<lparr>legend_location := Some ''top_left''\<rparr>),
      update_fig ''fig4'' (\<lambda>f. f\<lparr>legend_click_policy := Some Mute\<rparr>),
      show_s ''fig4'']"

definition plots_h :: "hstate \<Rightarrow> hstate option" where
  "plots_h = run [cell3_h, cell4_h, cell5_h, cell6_h, cell7_h]"

text \<open>A state of the first embedding with the given four tables.\<close>

definition with_tables :: "dataframe \<Rightarrow> dataframe \<Rightarrow> dataframe \<Rightarrow> dataframe \<Rightarrow> state" where
  "with_tables a g i m = init\<lparr>apple := a, google := g, ibm := i, micro := m\<rparr>"

text \<open>
  A heap that holds four tables, each the printed rows with the dates converted, and
  the four variables bound to them: a state as the second cell leaves it.
\<close>

definition sample_hstate :: hstate where
  "sample_hstate =
     \<lparr>heap = [Frame (setitem AAPL_head ''date'' AAPL_head_dates),
              Frame (setitem AAPL_head ''date'' AAPL_head_dates),
              Frame (setitem AAPL_head ''date'' AAPL_head_dates),
              Frame (setitem AAPL_head ''date'' AAPL_head_dates)],
      env = [''apple'' \<mapsto> 0, ''google'' \<mapsto> 1, ''ibm'' \<mapsto> 2, ''micro'' \<mapsto> 3],
      h_shown = []\<rparr>"

section \<open>The date conversion\<close>

lemma seq_Inr_iff: "seq m f = Inr y \<longleftrightarrow> (\<exists>x. m = Inr x \<and> f x = Inr y)"
  by (cases m) simp_all

lemma convert_cell_cases:
  "convert_cell conv c =
     (if is_datetime c then Inr c
      else case conv c of None \<Rightarrow> Inl ParseError | Some t \<Rightarrow> Inr (DatetimeV t))"
  by (cases c) (simp_all add: is_datetime_def)

lemma convert_cell_is_datetime: "convert_cell conv c = Inr d \<Longrightarrow> is_datetime d"
  by (auto simp: convert_cell_cases is_datetime_def split: if_splits option.splits)

lemma to_datetime_error: "to_datetime conv cs = Inl e \<Longrightarrow> e = ParseError"
proof (induction cs arbitrary: e)
  case Nil
  then show ?case by simp
next
  case (Cons c cs)
  show ?case
  proof (cases "convert_cell conv c")
    case (Inl e1)
    with Cons.prems show ?thesis
      by (auto simp: convert_cell_cases split: if_splits option.splits)
  next
    case (Inr d)
    with Cons show ?thesis
      by (cases "to_datetime conv cs") auto
  qed
qed

lemma to_datetime_result:
  "to_datetime conv cs = Inr ds \<Longrightarrow> length ds = length cs \<and> (\<forall>d\<in>set ds. is_datetime d)"
proof (induction cs arbitrary: ds)
  case Nil
  then show ?case by simp
next
  case (Cons c cs)
  then show ?case
    by (auto simp: seq_Inr_iff dest: convert_cell_is_datetime)
qed

lemma to_datetime_fixed: "\<forall>d\<in>set ds. is_datetime d \<Longrightarrow> to_datetime conv ds = Inr ds"
  by (induction ds) (simp_all add: convert_cell_cases)

lemma to_datetime_succeeds:
  "\<forall>c\<in>set cs. conv c \<noteq> None \<Longrightarrow> \<exists>ds. to_datetime conv cs = Inr ds"
proof (induction cs)
  case Nil
  then show ?case by simp
next
  case (Cons c cs)
  then obtain ds where "to_datetime conv cs = Inr ds" by auto
  moreover from Cons.prems have "\<exists>d. convert_cell conv c = Inr d"
    by (cases "is_datetime c") (auto simp: convert_cell_cases)
  then obtain d where "convert_cell conv c = Inr d" ..
  ultimately show ?case by simp
qed

lemma to_datetime_fails:
  "c \<in> set cs \<Longrightarrow> \<not> is_datetime c \<Longrightarrow> conv c = None \<Longrightarrow> to_datetime conv cs = Inl ParseError"
proof (induction cs)
  case Nil
  then show ?case by simp
next
  case (Cons a cs)
  show ?case
  proof (cases "convert_cell conv a")
    case (Inl e)
    then have "e = ParseError"
      by (auto simp: convert_cell_cases split: if_splits option.splits)
    with Inl show ?thesis by simp
  next
    case (Inr d)
    with Cons.prems have "a \<noteq> c"
      by (auto simp: convert_cell_cases)
    with Cons have "to_datetime conv cs = Inl ParseError" by simp
    with Inr show ?thesis by simp
  qed
qed

lemma getitem_setitem: "getitem (setitem df k c) k = Inr c"
  by (simp add: getitem_def setitem_def update_conv')

lemma getitem_Inr_iff: "getitem df k = Inr c \<longleftrightarrow> map_of df k = Some c"
  by (simp add: getitem_def split: option.splits)

lemma normalize_date_Inr_iff:
  "normalize_date conv df = Inr df1 \<longleftrightarrow>
     (\<exists>c d. getitem df ''date'' = Inr c \<and> to_datetime conv c = Inr d \<and> df1 = setitem df ''date'' d)"
  by (auto simp: normalize_date_def seq_Inr_iff)

lemma normalize_date_again:
  assumes "normalize_date conv df = Inr df1"
  shows "normalize_date conv df1 = Inr df1"
proof -
  from assms obtain c d where c: "getitem df ''date'' = Inr c"
    and d: "to_datetime conv c = Inr d" and df1: "df1 = setitem df ''date'' d"
    by (auto simp: normalize_date_Inr_iff)
  from d have "to_datetime conv d = Inr d"
    by (simp add: to_datetime_result to_datetime_fixed)
  moreover have "setitem df1 ''date'' d = df1"
    by (simp add: df1 setitem_def)
  ultimately show ?thesis
    by (simp add: normalize_date_def df1 getitem_setitem)
qed

text \<open>
  Claim C4. Converting the dates is idempotent: for a table whose date column holds
  only values that can be converted, the conversion succeeds, and converting the
  result once more gives the same table, so the same datetime values, as converting once.
\<close>

theorem date_normalization_idempotent:
  assumes "getitem df ''date'' = Inr col" and "\<forall>c\<in>set col. conv c \<noteq> None"
  shows "(\<exists>df1. normalize_date conv df = Inr df1) \<and>
         seq (normalize_date conv df) (normalize_date conv) = normalize_date conv df"
proof -
  from assms(2) obtain d where "to_datetime conv col = Inr d"
    using to_datetime_succeeds by blast
  with assms(1) have 1: "normalize_date conv df = Inr (setitem df ''date'' d)"
    by (simp add: normalize_date_def)
  then show ?thesis
    by (simp add: normalize_date_again)
qed


theorem date_normalization_idempotent_witness:
  "getitem AAPL_head ''date'' =
     Inr [StrV ''2000-03-01'', StrV ''2000-03-02'', StrV ''2000-03-03'',
          StrV ''2000-03-06'', StrV ''2000-03-07''] \<and>
   map iso_conv [StrV ''2000-03-01'', StrV ''2000-03-02'', StrV ''2000-03-03'',
          StrV ''2000-03-06'', StrV ''2000-03-07''] =
     [Some (Timestamp 2000 3 1), Some (Timestamp 2000 3 2), Some (Timestamp 2000 3 3),
      Some (Timestamp 2000 3 6), Some (Timestamp 2000 3 7)] \<and>
   (\<exists>df1. normalize_date iso_conv AAPL_head = Inr df1) \<and>
   seq (normalize_date iso_conv AAPL_head) (normalize_date iso_conv) =
     normalize_date iso_conv AAPL_head"
proof -
  have g: "getitem AAPL_head ''date'' =
     Inr [StrV ''2000-03-01'', StrV ''2000-03-02'', StrV ''2000-03-03'',
          StrV ''2000-03-06'', StrV ''2000-03-07'']"
    by (simp add: AAPL_head_def getitem_def)
  have v: "map iso_conv [StrV ''2000-03-01'', StrV ''2000-03-02'', StrV ''2000-03-03'',
          StrV ''2000-03-06'', StrV ''2000-03-07''] =
     [Some (Timestamp 2000 3 1), Some (Timestamp 2000 3 2), Some (Timestamp 2000 3 3),
      Some (Timestamp 2000 3 6), Some (Timestamp 2000 3 7)]"
    by (simp add: iso_date_def digit_def days_in_month_def)
  have p: "\<forall>c\<in>set [StrV ''2000-03-01'', StrV ''2000-03-02'', StrV ''2000-03-03'',
          StrV ''2000-03-06'', StrV ''2000-03-07'']. iso_conv c \<noteq> None"
    by (simp add: iso_date_def digit_def days_in_month_def)
  from date_normalization_idempotent [where conv = iso_conv, OF g p] g v show ?thesis
    by simp
qed

lemma not_Inr_is_Inl: "(\<forall>y. m \<noteq> Inr y) \<Longrightarrow> \<exists>e. m = Inl e"
  by (cases m) auto

lemma cell2_Inr_iff:
  "cell2 conv A G I M s = Inr s' \<longleftrightarrow>
     (\<exists>a g i m. normalize_date conv A = Inr a \<and> normalize_date conv G = Inr g \<and>
        normalize_date conv I = Inr i \<and> normalize_date conv M = Inr m \<and>
        s' = s\<lparr>apple := a, google := g, ibm := i, micro := m,
               stdout := stdout s @ [head 5 A]\<rparr>)"
  by (auto simp: cell2_def Let_def seq_Inr_iff from_dict_def)

lemma cell2_fails:
  assumes "normalize_date conv df = Inl e" and "df \<in> set [A, G, I, M]"
  shows "\<exists>e'. cell2 conv A G I M s = Inl e'"
proof (rule not_Inr_is_Inl, rule allI, rule notI)
  fix s'
  assume "cell2 conv A G I M s = Inr s'"
  then have "\<forall>d\<in>set [A, G, I, M]. \<exists>d'. normalize_date conv d = Inr d'"
    by (auto simp: cell2_Inr_iff)
  with assms show False by auto
qed

lemma normalize_date_malformed:
  assumes "getitem df ''date'' = Inr col" and "StrV x \<in> set col" and "conv (StrV x) = None"
  shows "normalize_date conv df = Inl ParseError"
proof -
  have "to_datetime conv col = Inl ParseError"
    using assms(2,3) to_datetime_fails [of "StrV x" col conv] by (simp add: is_datetime_def)
  with assms(1) show ?thesis
    by (simp add: normalize_date_def)
qed

lemma normalize_date_all_datetime:
  assumes "normalize_date conv d = Inr d'"
  shows "\<exists>c. getitem d' ''date'' = Inr c \<and> (\<forall>v\<in>set c. is_datetime v)"
  using assms by (auto simp: normalize_date_Inr_iff getitem_setitem dest: to_datetime_result)

text \<open>
  Claim C5. A table whose date column holds a string that cannot be converted makes the
  conversion fail with a parse error; the cell stops there (at once when the table is the
  first one, and with some error wherever the table stands), so does the notebook, and a
  conversion that returns a table returns one whose date column holds datetime values
  only: no string is left in it.
\<close>

theorem malformed_date_is_parse_error:
  assumes "getitem df ''date'' = Inr col" and "StrV x \<in> set col" and "conv (StrV x) = None"
  shows "normalize_date conv df = Inl ParseError \<and>
         (\<forall>G I M s. cell2 conv df G I M s = Inl ParseError) \<and>
         (\<forall>A G I M s. df \<in> set [A, G, I, M] \<longrightarrow>
            (\<exists>e. cell2 conv A G I M s = Inl e) \<and> (\<exists>e. notebook conv A G I M s = Inl e)) \<and>
         (\<forall>d d'. normalize_date conv d = Inr d' \<longrightarrow>
            (\<exists>c. getitem d' ''date'' = Inr c \<and> (\<forall>v\<in>set c. is_datetime v)))"
proof -
  have 1: "normalize_date conv df = Inl ParseError"
    using assms by (rule normalize_date_malformed)
  have 2: "cell2 conv df G I M s = Inl ParseError" for G I M s
    by (simp add: cell2_def Let_def from_dict_def 1)
  have 3: "(\<exists>e. cell2 conv A G I M s = Inl e) \<and> (\<exists>e. notebook conv A G I M s = Inl e)"
    if "df \<in> set [A, G, I, M]" for A G I M s
  proof -
    from 1 that obtain e where "cell2 conv A G I M s = Inl e"
      using cell2_fails by blast
    then show ?thesis by (simp add: notebook_def)
  qed
  from 1 2 3 show ?thesis
    using normalize_date_all_datetime by blast
qed

theorem malformed_date_is_parse_error_witness:
  "getitem bad_dates ''date'' = Inr [StrV ''2000-03-01'', StrV ''03/02/2000''] \<and>
   iso_conv (StrV ''03/02/2000'') = None \<and>
   normalize_date iso_conv bad_dates = Inl ParseError \<and>
   cell2 iso_conv bad_dates AAPL_head AAPL_head AAPL_head init = Inl ParseError"
proof -
  have g: "getitem bad_dates ''date'' = Inr [StrV ''2000-03-01'', StrV ''03/02/2000'']"
    by (simp add: bad_dates_def getitem_setitem)
  have m: "StrV ''03/02/2000'' \<in> set [StrV ''2000-03-01'', StrV ''03/02/2000'']"
    by simp
  have n: "iso_conv (StrV ''03/02/2000'') = None"
    by (simp add: iso_date_def digit_def)
  from malformed_date_is_parse_error [where conv = iso_conv, OF g m n] g n show ?thesis
    by blast
qed

section \<open>What the cells build\<close>

lemmas plot_defs = new_figure_def line_def add_tools_def HoverTool_def no_kw_def add_legend_def

lemma cell3_tables:
  "apple (cell3 s) = apple s" "google (cell3 s) = google s"
  "ibm (cell3 s) = ibm s" "micro (cell3 s) = micro s"
  by (simp_all add: cell3_def Let_def)

lemma cell4_tables:
  "apple (cell4 s) = apple s" "google (cell4 s) = google s"
  "ibm (cell4 s) = ibm s" "micro (cell4 s) = micro s"
  by (simp_all add: cell4_def Let_def)

lemma cell5_tables:
  "apple (cell5 s) = apple s" "google (cell5 s) = google s"
  "ibm (cell5 s) = ibm s" "micro (cell5 s) = micro s"
  by (simp_all add: cell5_def Let_def)

lemma cell6_tables:
  "apple (cell6 s) = apple s" "google (cell6 s) = google s"
  "ibm (cell6 s) = ibm s" "micro (cell6 s) = micro s"
  by (simp_all add: cell6_def Let_def)

lemma cell7_tables:
  "apple (cell7 s) = apple s" "google (cell7 s) = google s"
  "ibm (cell7 s) = ibm s" "micro (cell7 s) = micro s"
  by (simp_all add: cell7_def Let_def)

lemmas cells_tables = cell3_tables cell4_tables cell5_tables cell6_tables cell7_tables

lemma cell3_figures:
  "fig1 (cell3 s) = fig1 s" "fig2 (cell3 s) = fig2 s" "fig3 (cell3 s) = fig3 s" "fig4 (cell3 s) = fig4 s"
  by (simp_all add: cell3_def Let_def)

lemma cell4_figures:
  "fig (cell4 s) = fig s" "fig2 (cell4 s) = fig2 s" "fig3 (cell4 s) = fig3 s" "fig4 (cell4 s) = fig4 s"
  by (simp_all add: cell4_def Let_def)

lemma cell5_figures:
  "fig (cell5 s) = fig s" "fig1 (cell5 s) = fig1 s" "fig3 (cell5 s) = fig3 s" "fig4 (cell5 s) = fig4 s"
  by (simp_all add: cell5_def Let_def)

lemma cell6_figures:
  "fig (cell6 s) = fig s" "fig1 (cell6 s) = fig1 s" "fig2 (cell6 s) = fig2 s" "fig4 (cell6 s) = fig4 s"
  by (simp_all add: cell6_def Let_def)

lemma cell7_figures:
  "fig (cell7 s) = fig s" "fig1 (cell7 s) = fig1 s" "fig2 (cell7 s) = fig2 s" "fig3 (cell7 s) = fig3 s"
  by (simp_all add: cell7_def Let_def)

lemmas cells_figures = cell3_figures cell4_figures cell5_figures cell6_figures cell7_figures

lemma fig3_renderers:
  "renderers (fig3 (cell6 s)) =
     [\<lparr>glyph = Line, x_field = ''date'', y_field = ''open'', source = ColumnDataSource (apple s),
       style = \<lparr>line_width = Some 1.7, alpha = Some 1, color = Some ''crimson'',
                muted_color = None, muted_alpha = None, legend_label = Some ''Apple''\<rparr>,
       muted = False, visible = True\<rparr>,
      \<lparr>glyph = Line, x_field = ''date'', y_field = ''open'', source = ColumnDataSource (google s),
       style = \<lparr>line_width = Some 1.7, alpha = None, color = Some ''olive'',
                muted_color = None, muted_alpha = None, legend_label = Some ''Google''\<rparr>,
       muted = False, visible = True\<rparr>,
      \<lparr>glyph = Line, x_field = ''date'', y_field = ''open'', source = ColumnDataSource (ibm s),
       style = \<lparr>line_width = Some 1.7, alpha = None, color = Some ''fuchsia'',
                muted_color = None, muted_alpha = None, legend_label = Some ''IBM''\<rparr>,
       muted = False, visible = True\<rparr>,
      \<lparr>glyph = Line, x_field = ''date'', y_field = ''open'', source = ColumnDataSource (micro s),
       style = \<lparr>line_width = Some 1.7, alpha = None, color = Some ''black'',
                muted_color = None, muted_alpha = None, legend_label = Some ''Microsoft''\<rparr>,
       muted = False, visible = True\<rparr>]"
  by (simp add: cell6_def Let_def plot_defs)

lemma fig4_renderers:
  "renderers (fig4 (cell7 s)) =
     [\<lparr>glyph = Line, x_field = ''date'', y_field = ''open'', source = ColumnDataSource (apple s),
       style = \<lparr>line_width = Some 1.7, alpha = Some 1, color = Some ''crimson'',
                muted_color = Some ''crimson'', muted_alpha = Some 0.2,
                legend_label = Some ''Apple''\<rparr>,
       muted = False, visible = True\<rparr>,
      \<lparr>glyph = Line, x_field = ''date'', y_field = ''open'', source = ColumnDataSource (google s),
       style = \<lparr>line_width = Some 1.7, alpha = Some 1, color = Some ''olive'',
                muted_color = Some ''olive'', muted_alpha = Some 0.2,
                legend_label = Some ''Google''\<rparr>,
       muted = False, visible = True\<rparr>,
      \<lparr>glyph = Line, x_field = ''date'', y_field = ''open'', source = ColumnDataSource (ibm s),
       style = \<lparr>line_width = Some 1.7, alpha = Some 1, color = Some ''fuchsia'',
                muted_color = Some ''fuchsia'', muted_alpha = Some 0.2,
                legend_label = Some ''IBM''\<rparr>,
       muted = False, visible = True\<rparr>,
      \<lparr>glyph = Line, x_field = ''date'', y_field = ''open'', source = ColumnDataSource (micro s),
       style = \<lparr>line_width = Some 1.7, alpha = Some 1, color = Some ''black'',
                muted_color = Some ''black'', muted_alpha = Some 0.2,
                legend_label = Some ''Microsoft''\<rparr>,
       muted = False, visible = True\<rparr>]"
  by (simp add: cell7_def Let_def plot_defs)

lemma fig3_legend_items:
  "legend_items (fig3 (cell6 s)) =
     [(''Apple'', [0]), (''Google'', [1]), (''IBM'', [2]), (''Microsoft'', [3])]"
  by (simp add: cell6_def Let_def plot_defs)

lemma fig4_legend_items:
  "legend_items (fig4 (cell7 s)) =
     [(''Apple'', [0]), (''Google'', [1]), (''IBM'', [2]), (''Microsoft'', [3])]"
  by (simp add: cell7_def Let_def plot_defs)

lemma fig2_added_tools:
  "added_tools (fig2 (cell5 s)) =
     [\<lparr>tooltips =
         [(''Calendar date'', ''@date{%F}''), (''Opening price'', ''@open{0,}''),
          (''Daily high'', ''@high{0,}''), (''Daily low'', ''@low{0,}''),
          (''Closing price'', ''@close{0,}''), (''Trading volume'', ''@volume{0,}'')],
       formatters = [(''@date'', ''datetime'')], muted_policy = Show, mode = ''vline''\<rparr>]"
  by (simp add: cell5_def Let_def plot_defs)

lemma fig3_added_tools:
  "added_tools (fig3 (cell6 s)) =
     [\<lparr>tooltips =
         [(''Calendar date'', ''@date{%F}''), (''Opening price'', ''@open{0,}''),
          (''Daily high'', ''@high{0,}''), (''Daily low'', ''@low{0,}''),
          (''Closing price'', ''@close{0,}''), (''Trading volume'', ''@volume{0,}'')],
       formatters = [(''@date'', ''datetime'')], muted_policy = Show, mode = ''vline''\<rparr>]"
  by (simp add: cell6_def Let_def plot_defs)

lemma fig4_added_tools:
  "added_tools (fig4 (cell7 s)) =
     [\<lparr>tooltips =
         [(''Calendar date'', ''@date{%F}''), (''Opening price'', ''@open{0,}''),
          (''Daily high'', ''@high{0,}''), (''Daily low'', ''@low{0,}''),
          (''Closing price'', ''@close{0,}''), (''Trading volume'', ''@volume{0,}'')],
       formatters = [(''@date'', ''datetime'')], muted_policy = Ignore, mode = ''vline''\<rparr>]"
  by (simp add: cell7_def Let_def plot_defs)

lemma fig4_legend_click_policy: "legend_click_policy (fig4 (cell7 s)) = Some Mute"
  by (simp add: cell7_def Let_def plot_defs)

lemma plots_tables:
  "apple (plots s) = apple s" "google (plots s) = google s"
  "ibm (plots s) = ibm s" "micro (plots s) = micro s"
  by (simp_all add: plots_def cells_tables)

lemma plots_figures:
  "fig (plots s) = fig (cell3 s)"
  "fig1 (plots s) = fig1 (cell4 (cell3 s))"
  "fig2 (plots s) = fig2 (cell5 (cell4 (cell3 s)))"
  "fig3 (plots s) = fig3 (cell6 (cell5 (cell4 (cell3 s))))"
  "fig4 (plots s) = fig4 (cell7 (cell6 (cell5 (cell4 (cell3 s)))))"
  by (simp_all add: plots_def cells_figures)

section \<open>The claims about the figures\<close>

lemma getitem_source:
  "k \<noteq> ''index'' \<Longrightarrow> k \<noteq> ''level_0'' \<Longrightarrow> getitem (data (ColumnDataSource df)) k = getitem df k"
  by (simp add: ColumnDataSource_def getitem_def index_name_def)

lemma columns_source: "columns (data (ColumnDataSource df)) = index_name df # columns df"
  by (simp add: ColumnDataSource_def columns_def)

lemma z_order_line: "z_order (line f xf yf src kw) = z_order f @ [length (renderers f)]"
  by (simp add: z_order_def line_def)

lemma legend_order_line:
  "legend_order (line f xf yf src kw) =
     (case legend_label kw of
        None \<Rightarrow> legend_order f
      | Some l \<Rightarrow> if l \<in> set (legend_order f) then legend_order f else legend_order f @ [l])"
proof -
  have "map fst (map (\<lambda>(k, rs). if k = l then (k, rs @ [i]) else (k, rs)) items) = map fst items"
    for l :: string and i :: nat and items
    by (induction items) auto
  then show ?thesis
    by (simp add: legend_order_def line_def add_legend_def split: option.splits)
qed

text \<open>
  Claim C1. On the two figures with several series, the four draw calls leave exactly
  four line renderers with the labels Apple, Google, IBM and Microsoft and four
  different colours. Each renderer has the data source made from its own table, and what
  it reads there under its x and y field is that table's date column and that table's
  open column (or the table's KeyError when the table lacks the column). The renderers
  are painted in the order of the draw calls, Apple first and Microsoft over the others,
  and the legend lists the labels in the same order. For any figure a further draw call
  is painted after the layers already there, and its label, when new, comes after the
  labels already in the legend.
\<close>

theorem multi_series_layers:
  "map (\<lambda>r. (glyph r, x_field r, y_field r, legend_label (style r), color (style r)))
       (renderers (fig3 (plots s))) =
     [(Line, ''date'', ''open'', Some ''Apple'', Some ''crimson''),
      (Line, ''date'', ''open'', Some ''Google'', Some ''olive''),
      (Line, ''date'', ''open'', Some ''IBM'', Some ''fuchsia''),
      (Line, ''date'', ''open'', Some ''Microsoft'', Some ''black'')] \<and>
   map source (renderers (fig3 (plots s))) =
     map ColumnDataSource [apple s, google s, ibm s, micro s] \<and>
   map (\<lambda>r. (getitem (data (source r)) (x_field r), getitem (data (source r)) (y_field r)))
       (renderers (fig3 (plots s))) =
     map (\<lambda>t. (getitem t ''date'', getitem t ''open'')) [apple s, google s, ibm s, micro s] \<and>
   map (\<lambda>i. legend_label (style (renderers (fig3 (plots s)) ! i))) (z_order (fig3 (plots s))) =
     [Some ''Apple'', Some ''Google'', Some ''IBM'', Some ''Microsoft''] \<and>
   legend_order (fig3 (plots s)) = [''Apple'', ''Google'', ''IBM'', ''Microsoft''] \<and>
   legend_items (fig3 (plots s)) =
     [(''Apple'', [0]), (''Google'', [1]), (''IBM'', [2]), (''Microsoft'', [3])] \<and>
   distinct (map (\<lambda>r. color (style r)) (renderers (fig3 (plots s)))) \<and>
   map (\<lambda>r. (glyph r, x_field r, y_field r, legend_label (style r), color (style r)))
       (renderers (fig4 (plots s))) =
     [(Line, ''date'', ''open'', Some ''Apple'', Some ''crimson''),
      (Line, ''date'', ''open'', Some ''Google'', Some ''olive''),
      (Line, ''date'', ''open'', Some ''IBM'', Some ''fuchsia''),
      (Line, ''date'', ''open'', Some ''Microsoft'', Some ''black'')] \<and>
   map source (renderers (fig4 (plots s))) =
     map ColumnDataSource [apple s, google s, ibm s, micro s] \<and>
   map (\<lambda>r. (getitem (data (source r)) (x_field r), getitem (data (source r)) (y_field r)))
       (renderers (fig4 (plots s))) =
     map (\<lambda>t. (getitem t ''date'', getitem t ''open'')) [apple s, google s, ibm s, micro s] \<and>
   map (\<lambda>i. legend_label (style (renderers (fig4 (plots s)) ! i))) (z_order (fig4 (plots s))) =
     [Some ''Apple'', Some ''Google'', Some ''IBM'', Some ''Microsoft''] \<and>
   legend_order (fig4 (plots s)) = [''Apple'', ''Google'', ''IBM'', ''Microsoft''] \<and>
   legend_items (fig4 (plots s)) =
     [(''Apple'', [0]), (''Google'', [1]), (''IBM'', [2]), (''Microsoft'', [3])] \<and>
   distinct (map (\<lambda>r. color (style r)) (renderers (fig4 (plots s)))) \<and>
   z_order (line f xf yf src kw) = z_order f @ [length (renderers f)] \<and>
   legend_order (line f xf yf src kw) =
     (case legend_label kw of
        None \<Rightarrow> legend_order f
      | Some l \<Rightarrow> if l \<in> set (legend_order f) then legend_order f else legend_order f @ [l])"
proof -
  have z: "[0..<4] = [0, 1, 2, 3::nat]"
    by (simp add: upt_rec)
  have 3: "map (\<lambda>r. (glyph r, x_field r, y_field r, legend_label (style r), color (style r)))
       (renderers (fig3 (plots s))) =
     [(Line, ''date'', ''open'', Some ''Apple'', Some ''crimson''),
      (Line, ''date'', ''open'', Some ''Google'', Some ''olive''),
      (Line, ''date'', ''open'', Some ''IBM'', Some ''fuchsia''),
      (Line, ''date'', ''open'', Some ''Microsoft'', Some ''black'')] \<and>
   map source (renderers (fig3 (plots s))) =
     map ColumnDataSource [apple s, google s, ibm s, micro s] \<and>
   map (\<lambda>r. (getitem (data (source r)) (x_field r), getitem (data (source r)) (y_field r)))
       (renderers (fig3 (plots s))) =
     map (\<lambda>t. (getitem t ''date'', getitem t ''open'')) [apple s, google s, ibm s, micro s] \<and>
   map (\<lambda>i. legend_label (style (renderers (fig3 (plots s)) ! i))) (z_order (fig3 (plots s))) =
     [Some ''Apple'', Some ''Google'', Some ''IBM'', Some ''Microsoft''] \<and>
   legend_order (fig3 (plots s)) = [''Apple'', ''Google'', ''IBM'', ''Microsoft''] \<and>
   legend_items (fig3 (plots s)) =
     [(''Apple'', [0]), (''Google'', [1]), (''IBM'', [2]), (''Microsoft'', [3])] \<and>
   distinct (map (\<lambda>r. color (style r)) (renderers (fig3 (plots s))))"
    by (simp add: plots_figures fig3_renderers fig3_legend_items cells_tables getitem_source
          z_order_def legend_order_def z)
  have 4: "map (\<lambda>r. (glyph r, x_field r, y_field r, legend_label (style r), color (style r)))
       (renderers (fig4 (plots s))) =
     [(Line, ''date'', ''open'', Some ''Apple'', Some ''crimson''),
      (Line, ''date'', ''open'', Some ''Google'', Some ''olive''),
      (Line, ''date'', ''open'', Some ''IBM'', Some ''fuchsia''),
      (Line, ''date'', ''open'', Some ''Microsoft'', Some ''black'')] \<and>
   map source (renderers (fig4 (plots s))) =
     map ColumnDataSource [apple s, google s, ibm s, micro s] \<and>
   map (\<lambda>r. (getitem (data (source r)) (x_field r), getitem (data (source r)) (y_field r)))
       (renderers (fig4 (plots s))) =
     map (\<lambda>t. (getitem t ''date'', getitem t ''open'')) [apple s, google s, ibm s, micro s] \<and>
   map (\<lambda>i. legend_label (style (renderers (fig4 (plots s)) ! i))) (z_order (fig4 (plots s))) =
     [Some ''Apple'', Some ''Google'', Some ''IBM'', Some ''Microsoft''] \<and>
   legend_order (fig4 (plots s)) = [''Apple'', ''Google'', ''IBM'', ''Microsoft''] \<and>
   legend_items (fig4 (plots s)) =
     [(''Apple'', [0]), (''Google'', [1]), (''IBM'', [2]), (''Microsoft'', [3])] \<and>
   distinct (map (\<lambda>r. color (style r)) (renderers (fig4 (plots s))))"
    by (simp add: plots_figures fig4_renderers fig4_legend_items cells_tables getitem_source
          z_order_def legend_order_def z)
  from 3 4 z_order_line [of f xf yf src kw] legend_order_line [of f xf yf src kw]
  show ?thesis by blast
qed

theorem multi_series_layers_witness:
  "map (\<lambda>r. getitem (data (source r)) (y_field r)) (renderers (fig4 (plots sample_state))) =
     [Inr [FloatV 118.56, FloatV 127.00, FloatV 124.87, FloatV 126.00, FloatV 126.44],
      Inr [FloatV 118.56, FloatV 127.00, FloatV 124.87, FloatV 126.00, FloatV 126.44],
      Inr [FloatV 118.56, FloatV 127.00, FloatV 124.87, FloatV 126.00, FloatV 126.44],
      Inr [FloatV 118.56, FloatV 127.00, FloatV 124.87, FloatV 126.00, FloatV 126.44]] \<and>
   map (\<lambda>r. getitem (data (source r)) (x_field r)) (renderers (fig4 (plots sample_state))) =
     [Inr AAPL_head_dates, Inr AAPL_head_dates, Inr AAPL_head_dates, Inr AAPL_head_dates] \<and>
   legend_order (fig4 (plots sample_state)) = [''Apple'', ''Google'', ''IBM'', ''Microsoft'']"
proof -
  have o: "getitem (setitem AAPL_head ''date'' AAPL_head_dates) ''open'' =
      Inr [FloatV 118.56, FloatV 127.00, FloatV 124.87, FloatV 126.00, FloatV 126.44]"
    by (simp add: getitem_def setitem_def AAPL_head_def)
  have d: "getitem (setitem AAPL_head ''date'' AAPL_head_dates) ''date'' = Inr AAPL_head_dates"
    by (rule getitem_setitem)
  have t: "apple sample_state = setitem AAPL_head ''date'' AAPL_head_dates"
    "google sample_state = setitem AAPL_head ''date'' AAPL_head_dates"
    "ibm sample_state = setitem AAPL_head ''date'' AAPL_head_dates"
    "micro sample_state = setitem AAPL_head ''date'' AAPL_head_dates"
    by (simp_all add: sample_state_def)
  note m = multi_series_layers [of sample_state "fig4 (plots sample_state)" "''date''" "''open''"
      "ColumnDataSource AAPL_head" no_kw]
  have p: "map (\<lambda>r. (getitem (data (source r)) (x_field r), getitem (data (source r)) (y_field r)))
       (renderers (fig4 (plots sample_state))) =
     map (\<lambda>t. (getitem t ''date'', getitem t ''open''))
       [apple sample_state, google sample_state, ibm sample_state, micro sample_state]"
    using m by (elim conjE)
  have l: "legend_order (fig4 (plots sample_state)) =
      [''Apple'', ''Google'', ''IBM'', ''Microsoft'']"
    using m by (elim conjE)
  from p [THEN arg_cong [where f = "map fst"]]
  have x: "map (\<lambda>r. getitem (data (source r)) (x_field r)) (renderers (fig4 (plots sample_state))) =
     [Inr AAPL_head_dates, Inr AAPL_head_dates, Inr AAPL_head_dates, Inr AAPL_head_dates]"
    by (simp add: comp_def t d)
  from p [THEN arg_cong [where f = "map snd"]]
  have y: "map (\<lambda>r. getitem (data (source r)) (y_field r)) (renderers (fig4 (plots sample_state))) =
     [Inr [FloatV 118.56, FloatV 127.00, FloatV 124.87, FloatV 126.00, FloatV 126.44],
      Inr [FloatV 118.56, FloatV 127.00, FloatV 124.87, FloatV 126.00, FloatV 126.44],
      Inr [FloatV 118.56, FloatV 127.00, FloatV 124.87, FloatV 126.00, FloatV 126.44],
      Inr [FloatV 118.56, FloatV 127.00, FloatV 124.87, FloatV 126.00, FloatV 126.44]]"
    by (simp add: comp_def t o)
  from x y l show ?thesis by (intro conjI)
qed

text \<open>
  Claim C2. The final figure gets one hover tool. Its tooltips are the six entries
  Calendar date, Opening price, Daily high, Daily low, Closing price and Trading volume,
  in this order, on the fields date, open, high, low, close and volume, the date
  with the format \<^verbatim>\<open>%F\<close> and the others with \<^verbatim>\<open>0,\<close>; its formatters give the
  reference to the date field the kind datetime.
\<close>

theorem hover_tooltip_entries:
  "map tooltip_triples (added_tools (fig4 (plots s))) =
     [[(''Calendar date'', Some ''date'', Some ''%F''),
       (''Opening price'', Some ''open'', Some ''0,''),
       (''Daily high'', Some ''high'', Some ''0,''),
       (''Daily low'', Some ''low'', Some ''0,''),
       (''Closing price'', Some ''close'', Some ''0,''),
       (''Trading volume'', Some ''volume'', Some ''0,'')]] \<and>
   map formatters (added_tools (fig4 (plots s))) = [[(''@date'', ''datetime'')]] \<and>
   map (\<lambda>h. map_of (formatters h) (CHR ''@'' # ''date'')) (added_tools (fig4 (plots s))) =
     [Some ''datetime'']"
  by (simp add: plots_figures fig4_added_tools tooltip_triples_def tooltip_field_def
        tooltip_format_def)

lemma sample_normalize:
  "normalize_date iso_conv AAPL_head = Inr (setitem AAPL_head ''date'' AAPL_head_dates)"
proof -
  have "getitem AAPL_head ''date'' =
     Inr [StrV ''2000-03-01'', StrV ''2000-03-02'', StrV ''2000-03-03'',
          StrV ''2000-03-06'', StrV ''2000-03-07'']"
    by (simp add: AAPL_head_def getitem_def)
  moreover have "to_datetime iso_conv [StrV ''2000-03-01'', StrV ''2000-03-02'',
       StrV ''2000-03-03'', StrV ''2000-03-06'', StrV ''2000-03-07''] = Inr AAPL_head_dates"
    by (simp add: iso_date_def digit_def days_in_month_def AAPL_head_dates_def)
  ultimately show ?thesis
    by (simp add: normalize_date_def)
qed

lemma sample_cell2:
  "cell2 iso_conv AAPL_head AAPL_head AAPL_head AAPL_head init = Inr sample_state"
  by (simp add: cell2_Inr_iff sample_normalize sample_state_def init_def)

lemma sample_notebook:
  "notebook iso_conv AAPL_head AAPL_head AAPL_head AAPL_head init = Inr (plots sample_state)"
  by (simp add: notebook_def sample_cell2)

lemma notebook_Inr_iff:
  "notebook conv A G I M s0 = Inr s' \<longleftrightarrow> (\<exists>s2. cell2 conv A G I M s0 = Inr s2 \<and> s' = plots s2)"
  by (auto simp: notebook_def seq_Inr_iff)

text \<open>
  Claim C10. The final figure has four series, and every one of them has a colour, a
  muted colour equal to it, the alpha 1, the muted alpha 0.2, which lies strictly
  between 0 and the alpha, and the line width 1.7.
\<close>

theorem muted_series_style:
  "length (renderers (fig4 (plots s))) = 4 \<and>
   (\<forall>r\<in>set (renderers (fig4 (plots s))).
      color (style r) \<noteq> None \<and> muted_color (style r) = color (style r) \<and>
      alpha (style r) = Some 1 \<and> muted_alpha (style r) = Some 0.2 \<and>
      line_width (style r) = Some 1.7 \<and>
      (case (muted_alpha (style r), alpha (style r)) of
         (Some m, Some a) \<Rightarrow> 0 < m \<and> m < a
       | _ \<Rightarrow> False))"
  by (simp add: plots_figures fig4_renderers)

theorem muted_series_style_witness:
  "renderers (fig4 (plots init)) ! 2 \<in> set (renderers (fig4 (plots init))) \<and>
   legend_label (style (renderers (fig4 (plots init)) ! 2)) = Some ''IBM'' \<and>
   color (style (renderers (fig4 (plots init)) ! 2)) = Some ''fuchsia'' \<and>
   muted_color (style (renderers (fig4 (plots init)) ! 2)) = Some ''fuchsia'' \<and>
   alpha (style (renderers (fig4 (plots init)) ! 2)) = Some 1 \<and>
   muted_alpha (style (renderers (fig4 (plots init)) ! 2)) = Some 0.2 \<and>
   line_width (style (renderers (fig4 (plots init)) ! 2)) = Some 1.7"
proof -
  have m: "renderers (fig4 (plots init)) ! 2 \<in> set (renderers (fig4 (plots init)))"
    by (simp add: plots_figures fig4_renderers)
  have l: "legend_label (style (renderers (fig4 (plots init)) ! 2)) = Some ''IBM''"
    "color (style (renderers (fig4 (plots init)) ! 2)) = Some ''fuchsia''"
    by (simp_all add: plots_figures fig4_renderers)
  from muted_series_style [of init] m
  have "muted_color (style (renderers (fig4 (plots init)) ! 2)) =
          color (style (renderers (fig4 (plots init)) ! 2)) \<and>
        alpha (style (renderers (fig4 (plots init)) ! 2)) = Some 1 \<and>
        muted_alpha (style (renderers (fig4 (plots init)) ! 2)) = Some 0.2 \<and>
        line_width (style (renderers (fig4 (plots init)) ! 2)) = Some 1.7"
    by blast
  with m l show ?thesis by simp
qed

lemma toggle_at_length: "length (toggle_at g idxs rs) = length rs"
  by (simp add: toggle_at_def)

lemma toggle_at_nth:
  "i < length rs \<Longrightarrow> toggle_at g idxs rs ! i = (if i \<in> set idxs then g (rs ! i) else rs ! i)"
  by (simp add: toggle_at_def nth_enumerate_eq)

lemma toggle_at_twice:
  assumes "\<And>r. g (g r) = r"
  shows "toggle_at g idxs (toggle_at g idxs rs) = rs"
  by (rule nth_equalityI) (simp_all add: toggle_at_length toggle_at_nth assms)

lemma click_legend_twice: "click_legend (click_legend f l) l = f"
proof (cases "map_of (legend_items f) l")
  case None
  then show ?thesis by (simp add: click_legend_def)
next
  case (Some idxs)
  show ?thesis
  proof (cases "legend_click_policy f")
    case None
    with Some show ?thesis by (simp add: click_legend_def)
  next
    case (Some p)
    with \<open>map_of (legend_items f) l = Some idxs\<close> show ?thesis
      by (cases p) (simp_all add: click_legend_def toggle_at_twice)
  qed
qed

lemma fig4_click:
  "click_legend (fig4 (cell7 s)) l =
     (case map_of [(''Apple'', [0]), (''Google'', [1]), (''IBM'', [2]), (''Microsoft'', [3::nat])] l of
        None \<Rightarrow> fig4 (cell7 s)
      | Some idxs \<Rightarrow>
          (fig4 (cell7 s))\<lparr>renderers :=
             toggle_at (\<lambda>r. r\<lparr>muted := \<not> muted r\<rparr>) idxs (renderers (fig4 (cell7 s)))\<rparr>)"
  by (simp add: click_legend_def fig4_legend_items fig4_legend_click_policy split: option.splits)

text \<open>
  Claim C3. On the final figure, whose legend click policy is mute and whose hover tool
  ignores muted series: for every legend entry, the series is drawn with its base alpha
  1 and is a hover candidate before any click; after one click on its entry it is drawn
  with its muted alpha 0.2 and is no hover candidate any more, while the other series
  stay candidates; after a second click on the same entry the figure is what it was
  before the first.
\<close>

theorem legend_click_mutes_and_restores:
  assumes "l \<in> set (map fst (legend_items (fig4 (plots s))))"
  shows "map displayed_alpha (series (fig4 (plots s)) l) = [Some 1] \<and>
         map (\<lambda>r. alpha (style r)) (series (fig4 (plots s)) l) = [Some 1] \<and>
         map displayed_alpha (series (click_legend (fig4 (plots s)) l) l) = [Some 0.2] \<and>
         map (\<lambda>r. muted_alpha (style r)) (series (click_legend (fig4 (plots s)) l) l) = [Some 0.2] \<and>
         added_tools (click_legend (fig4 (plots s)) l) = added_tools (fig4 (plots s)) \<and>
         length (added_tools (fig4 (plots s))) = 1 \<and>
         (\<forall>h\<in>set (added_tools (fig4 (plots s))).
            set (series (fig4 (plots s)) l) \<subseteq> set (hover_candidates h (fig4 (plots s))) \<and>
            set (series (click_legend (fig4 (plots s)) l) l) \<inter>
              set (hover_candidates h (click_legend (fig4 (plots s)) l)) = {} \<and>
            map (\<lambda>r. legend_label (style r)) (hover_candidates h (click_legend (fig4 (plots s)) l)) =
              filter (\<lambda>k. k \<noteq> Some l) (map (\<lambda>r. legend_label (style r)) (renderers (fig4 (plots s))))) \<and>
         click_legend (click_legend (fig4 (plots s)) l) l = fig4 (plots s)"
proof -
  define s' where "s' = cell6 (cell5 (cell4 (cell3 s)))"
  have f: "fig4 (plots s) = fig4 (cell7 s')"
    by (simp add: plots_figures s'_def)
  from assms have "l = ''Apple'' \<or> l = ''Google'' \<or> l = ''IBM'' \<or> l = ''Microsoft''"
    by (auto simp: f fig4_legend_items)
  then have "map displayed_alpha (series (fig4 (cell7 s')) l) = [Some 1] \<and>
         map (\<lambda>r. alpha (style r)) (series (fig4 (cell7 s')) l) = [Some 1] \<and>
         map displayed_alpha (series (click_legend (fig4 (cell7 s')) l) l) = [Some 0.2] \<and>
         map (\<lambda>r. muted_alpha (style r)) (series (click_legend (fig4 (cell7 s')) l) l) = [Some 0.2] \<and>
         added_tools (click_legend (fig4 (cell7 s')) l) = added_tools (fig4 (cell7 s')) \<and>
         length (added_tools (fig4 (cell7 s'))) = 1 \<and>
         (\<forall>h\<in>set (added_tools (fig4 (cell7 s'))).
            set (series (fig4 (cell7 s')) l) \<subseteq> set (hover_candidates h (fig4 (cell7 s'))) \<and>
            set (series (click_legend (fig4 (cell7 s')) l) l) \<inter>
              set (hover_candidates h (click_legend (fig4 (cell7 s')) l)) = {} \<and>
            map (\<lambda>r. legend_label (style r)) (hover_candidates h (click_legend (fig4 (cell7 s')) l)) =
              filter (\<lambda>k. k \<noteq> Some l) (map (\<lambda>r. legend_label (style r)) (renderers (fig4 (cell7 s')))))"
    by (elim disjE)
      (simp_all add: fig4_click series_def fig4_legend_items fig4_renderers
        fig4_added_tools toggle_at_def displayed_alpha_def hover_candidates_def enumerate_eq_zip)
  moreover have "click_legend (click_legend (fig4 (cell7 s')) l) l = fig4 (cell7 s')"
    by (rule click_legend_twice)
  ultimately show ?thesis
    unfolding f by blast
qed


theorem legend_click_mutes_and_restores_witness:
  "''Google'' \<in> set (map fst (legend_items (fig4 (plots init)))) \<and>
   map displayed_alpha (series (fig4 (plots init)) ''Google'') = [Some 1] \<and>
   map displayed_alpha (series (click_legend (fig4 (plots init)) ''Google'') ''Google'') = [Some 0.2] \<and>
   click_legend (click_legend (fig4 (plots init)) ''Google'') ''Google'' = fig4 (plots init)"
proof -
  have m: "''Google'' \<in> set (map fst (legend_items (fig4 (plots init))))"
    by (simp add: plots_figures fig4_legend_items)
  from legend_click_mutes_and_restores [OF m] m show ?thesis
    by blast
qed

text \<open>
  Claim C6. The muted policy of a hover tool is show or ignore, and show when the tool
  is built without one. The hover tools of the single-series figure and of the first
  multi-series figure are built without one and have the policy show; the hover tool of
  the final figure, whose legend click policy is mute, is built with ignore. With ignore
  no muted series is a hover candidate; with show every visible series is.
\<close>

theorem hover_muted_policy:
  "map muted_policy (added_tools (fig2 (plots s))) = [Show] \<and>
   map muted_policy (added_tools (fig3 (plots s))) = [Show] \<and>
   map muted_policy (added_tools (fig4 (plots s))) = [Ignore] \<and>
   legend_click_policy (fig4 (plots s)) = Some Mute \<and>
   muted_policy (HoverTool tt fm None md) = Show \<and>
   muted_policy (HoverTool tt fm (Some p) md) = p \<and>
   (p = Show \<or> p = Ignore) \<and>
   (\<forall>h\<in>set (added_tools (fig4 (plots s))). \<forall>r\<in>set (hover_candidates h f). \<not> muted r) \<and>
   (\<forall>h\<in>set (added_tools (fig2 (plots s)) @ added_tools (fig3 (plots s))).
      hover_candidates h f = filter visible (renderers f))"
proof -
  have "p = Show \<or> p = Ignore"
    by (cases p) simp_all
  then show ?thesis
    by (simp add: plots_figures fig2_added_tools fig3_added_tools fig4_added_tools
          fig4_legend_click_policy HoverTool_def hover_candidates_def)
qed

theorem hover_muted_policy_witness:
  "map muted_policy (added_tools (fig2 (plots init))) = [Show] \<and>
   map muted_policy (added_tools (fig3 (plots init))) = [Show] \<and>
   map muted_policy (added_tools (fig4 (plots init))) = [Ignore] \<and>
   map (\<lambda>r. (legend_label (style r), muted r))
       (renderers (click_legend (fig4 (plots init)) ''Apple'')) =
     [(Some ''Apple'', True), (Some ''Google'', False), (Some ''IBM'', False),
      (Some ''Microsoft'', False)] \<and>
   map (\<lambda>h. map (\<lambda>r. legend_label (style r))
               (hover_candidates h (click_legend (fig4 (plots init)) ''Apple'')))
       (added_tools (fig4 (plots init))) =
     [[Some ''Google'', Some ''IBM'', Some ''Microsoft'']] \<and>
   map (\<lambda>h. map (\<lambda>r. legend_label (style r))
               (hover_candidates h (click_legend (fig4 (plots init)) ''Apple'')))
       (added_tools (fig3 (plots init))) =
     [[Some ''Apple'', Some ''Google'', Some ''IBM'', Some ''Microsoft'']]"
proof -
  define s' where "s' = cell6 (cell5 (cell4 (cell3 init)))"
  have f: "fig4 (plots init) = fig4 (cell7 s')"
    by (simp add: plots_figures s'_def)
  have c: "map (\<lambda>r. (legend_label (style r), muted r))
       (renderers (click_legend (fig4 (plots init)) ''Apple'')) =
     [(Some ''Apple'', True), (Some ''Google'', False), (Some ''IBM'', False),
      (Some ''Microsoft'', False)]"
    unfolding f
    by (simp add: fig4_click fig4_renderers toggle_at_def enumerate_eq_zip)
  have h4: "map (\<lambda>h. map (\<lambda>r. legend_label (style r))
               (hover_candidates h (click_legend (fig4 (plots init)) ''Apple'')))
       (added_tools (fig4 (plots init))) =
     [[Some ''Google'', Some ''IBM'', Some ''Microsoft'']]"
    unfolding f
    by (simp add: fig4_click fig4_renderers fig4_added_tools toggle_at_def enumerate_eq_zip
          hover_candidates_def)
  have h3: "map (\<lambda>h. map (\<lambda>r. legend_label (style r))
               (hover_candidates h (click_legend (fig4 (plots init)) ''Apple'')))
       (added_tools (fig3 (plots init))) =
     [[Some ''Apple'', Some ''Google'', Some ''IBM'', Some ''Microsoft'']]"
    unfolding f
    by (simp add: plots_figures fig4_click fig4_renderers fig3_added_tools toggle_at_def
          enumerate_eq_zip hover_candidates_def)
  from hover_muted_policy [of init] c h4 h3 show ?thesis
    by blast
qed

lemma getitem_column: "(\<exists>c. getitem df fld = Inr c) \<longleftrightarrow> fld \<in> set (columns df)"
proof -
  have "map_of df fld \<noteq> None \<longleftrightarrow> fld \<in> set (columns df)"
    by (simp add: columns_def map_of_eq_None_iff)
  then show ?thesis
    by (auto simp: getitem_def split: option.splits)
qed

lemma normalize_date_columns:
  assumes "normalize_date conv df = Inr df'"
  shows "columns df' = columns df"
proof -
  from assms obtain c d where c: "getitem df ''date'' = Inr c" and d: "df' = setitem df ''date'' d"
    by (auto simp: normalize_date_Inr_iff)
  from c have "''date'' \<in> set (columns df)"
    using getitem_column by blast
  with d show ?thesis
    by (simp add: setitem_def columns_def update_keys)
qed

lemma tooltip_fields_value:
  "tooltip_fields
     \<lparr>tooltips =
         [(''Calendar date'', ''@date{%F}''), (''Opening price'', ''@open{0,}''),
          (''Daily high'', ''@high{0,}''), (''Daily low'', ''@low{0,}''),
          (''Closing price'', ''@close{0,}''), (''Trading volume'', ''@volume{0,}'')],
       formatters = fm, muted_policy = mp, mode = md\<rparr> =
     [Some ''date'', Some ''open'', Some ''high'', Some ''low'', Some ''close'', Some ''volume'']"
  by (simp add: tooltip_fields_def tooltip_field_def)

text \<open>
  Claim C9. When the four samples have the columns date, open, high, low, close, volume
  and adj_close and the notebook runs through, the tooltips of the final figure refer to
  date, open, high, low, close and volume; its four renderers have the data sources of
  the four tables, whose columns are the index and the seven columns of the table, which
  the conversion of the dates has kept; every field a tooltip of a multi-series figure refers to is a
  column of the table behind every renderer of that figure, so looking it up never
  raises; and no tooltip refers to adj_close.
\<close>

theorem tooltip_fields_in_schema:
  assumes "columns AAPL = schema" and "columns GOOG = schema"
    and "columns IBM = schema" and "columns MSFT = schema"
    and "notebook conv AAPL GOOG IBM MSFT s0 = Inr s"
  shows "map tooltip_fields (added_tools (fig4 s)) =
           [[Some ''date'', Some ''open'', Some ''high'', Some ''low'', Some ''close'',
             Some ''volume'']] \<and>
         map source (renderers (fig4 s)) =
           map ColumnDataSource [apple s, google s, ibm s, micro s] \<and>
         map (\<lambda>r. columns (data (source r))) (renderers (fig4 s)) =
           [''index'' # schema, ''index'' # schema, ''index'' # schema, ''index'' # schema] \<and>
         map columns [apple s, google s, ibm s, micro s] = [schema, schema, schema, schema] \<and>
         (\<forall>fg\<in>set [fig3 s, fig4 s]. \<forall>h\<in>set (added_tools fg). \<forall>fo\<in>set (tooltip_fields h).
            \<forall>r\<in>set (renderers fg).
              \<exists>fld c. fo = Some fld \<and> fld \<in> set schema \<and> fld \<noteq> ''adj_close'' \<and>
                      getitem (data (source r)) fld = Inr c)"
proof -
  from assms(5) obtain s2 where c2: "cell2 conv AAPL GOOG IBM MSFT s0 = Inr s2"
    and s: "s = plots s2"
    by (auto simp: notebook_Inr_iff)
  from c2 have cols: "columns (apple s2) = schema" "columns (google s2) = schema"
    "columns (ibm s2) = schema" "columns (micro s2) = schema"
    using assms(1-4) by (auto simp: cell2_Inr_iff dest: normalize_date_columns)
  define s3 where "s3 = cell5 (cell4 (cell3 s2))"
  have t: "apple s3 = apple s2" "google s3 = google s2" "ibm s3 = ibm s2" "micro s3 = micro s2"
    by (simp_all add: s3_def cells_tables)
  have f: "fig4 s = fig4 (cell7 (cell6 s3))" "fig3 s = fig3 (cell6 s3)"
    by (simp_all add: s plots_figures s3_def)
  have g: "(\<exists>c. getitem df fld = Inr c) \<longleftrightarrow> fld \<in> set (columns df)" for df fld
    by (rule getitem_column)
  have 1: "map tooltip_fields (added_tools (fig4 s)) =
           [[Some ''date'', Some ''open'', Some ''high'', Some ''low'', Some ''close'',
             Some ''volume'']]"
    by (simp add: f fig4_added_tools tooltip_fields_value)
  have i: "index_name (apple s2) = ''index''" "index_name (google s2) = ''index''"
    "index_name (ibm s2) = ''index''" "index_name (micro s2) = ''index''"
    using cols by (simp_all add: index_name_def columns_def schema_def)
  have 2: "map source (renderers (fig4 s)) =
           map ColumnDataSource [apple s, google s, ibm s, micro s]"
    unfolding f by (simp add: fig4_renderers cells_tables s plots_tables t)
  have 5: "map (\<lambda>r. columns (data (source r))) (renderers (fig4 s)) =
           [''index'' # schema, ''index'' # schema, ''index'' # schema, ''index'' # schema]"
    unfolding f by (simp add: fig4_renderers columns_source cells_tables t cols i)
  have 3: "map columns [apple s, google s, ibm s, micro s] = [schema, schema, schema, schema]"
    by (simp add: s plots_tables cols)
  have 4: "\<forall>fg\<in>set [fig3 s, fig4 s]. \<forall>h\<in>set (added_tools fg). \<forall>fo\<in>set (tooltip_fields h).
            \<forall>r\<in>set (renderers fg).
              \<exists>fld c. fo = Some fld \<and> fld \<in> set schema \<and> fld \<noteq> ''adj_close'' \<and>
                      getitem (data (source r)) fld = Inr c"
    by (simp add: f fig4_added_tools fig3_added_tools tooltip_fields_value fig4_renderers
          fig3_renderers columns_source cells_tables t g cols i)
      (simp add: schema_def)
  from 1 2 5 3 4 show ?thesis by blast
qed

theorem tooltip_fields_in_schema_witness:
  "columns AAPL_head = schema \<and>
   notebook iso_conv AAPL_head AAPL_head AAPL_head AAPL_head init = Inr (plots sample_state) \<and>
   map tooltip_fields (added_tools (fig4 (plots sample_state))) =
     [[Some ''date'', Some ''open'', Some ''high'', Some ''low'', Some ''close'',
       Some ''volume'']] \<and>
   map columns [apple (plots sample_state), google (plots sample_state),
                ibm (plots sample_state), micro (plots sample_state)] =
     [schema, schema, schema, schema]"
proof -
  have c: "columns AAPL_head = schema"
    by (simp add: AAPL_head_def columns_def schema_def)
  from tooltip_fields_in_schema [OF c c c c sample_notebook] c sample_notebook show ?thesis
    by blast
qed

section \<open>The plotting cells leave the tables alone\<close>

lemmas stmt_defs = assign_tuple_def figure_s_def update_fig_def ColumnDataSource_s_def line_s_def
  add_tools_s_def show_s_def bind_new_def deref_def lookup_def

lemma deref_Frame:
  "deref s v = Some ob \<longleftrightarrow> (\<exists>x. env s v = Some x \<and> x < length (heap s) \<and> heap s ! x = ob)"
  by (auto simp: deref_def lookup_def split: option.splits)

lemma take_length_le: "take (length h0) h1 = h0 \<Longrightarrow> length h0 \<le> length h1"
proof -
  assume "take (length h0) h1 = h0"
  then have "length (take (length h0) h1) = length h0" by simp
  then show ?thesis by (simp add: min_def split: if_splits)
qed

lemma take_extends:
  assumes "take (length h0) h1 = h0" and "take (length h1) h2 = h1"
  shows "take (length h0) h2 = h0"
proof -
  from assms(1) have "length h0 \<le> length h1"
    by (rule take_length_le)
  then have "take (length h0) h2 = take (length h0) (take (length h1) h2)"
    by (simp add: min_def)
  with assms show ?thesis by simp
qed

lemma deref_extends:
  assumes "take (length (heap s)) (heap s') = heap s" and "env s' v = env s v"
    and "deref s v = Some ob"
  shows "deref s' v = Some ob"
proof -
  from assms(3) obtain x where x: "env s v = Some x" "x < length (heap s)" "heap s ! x = ob"
    by (auto simp: deref_Frame)
  from assms(1) have l: "length (heap s) \<le> length (heap s')"
    by (rule take_length_le)
  from x(2) have "take (length (heap s)) (heap s') ! x = heap s' ! x"
    by simp
  with assms(1) x(3) have "heap s' ! x = ob" by simp
  with x l assms(2) show ?thesis
    by (auto simp: deref_Frame)
qed

lemma update_fig_frame:
  assumes "update_fig v g t = Some t'"
  shows "env t' = env t \<and> h_shown t' = h_shown t \<and> length (heap t') = length (heap t) \<and>
         (\<forall>adr. env t v \<noteq> Some adr \<longrightarrow> heap t' ! adr = heap t ! adr)"
  using assms by (auto simp: update_fig_def split: option.splits obj.splits)

lemma line_s_frame:
  assumes "line_s fv xf yf sv kw t = Some t'"
  shows "env t' = env t \<and> h_shown t' = h_shown t \<and> length (heap t') = length (heap t) \<and>
         (\<forall>adr. env t fv \<noteq> Some adr \<longrightarrow> heap t' ! adr = heap t ! adr)"
proof -
  from assms obtain src where "update_fig fv (\<lambda>f. line f xf yf src kw) t = Some t'"
    by (auto simp: line_s_def split: option.splits obj.splits)
  then show ?thesis by (rule update_fig_frame)
qed

lemma add_tools_s_frame:
  assumes "add_tools_s fv ht t = Some t'"
  shows "env t' = env t \<and> h_shown t' = h_shown t \<and> length (heap t') = length (heap t) \<and>
         (\<forall>adr. env t fv \<noteq> Some adr \<longrightarrow> heap t' ! adr = heap t ! adr)"
  using assms unfolding add_tools_s_def by (rule update_fig_frame)

lemma ColumnDataSource_s_frame:
  assumes "ColumnDataSource_s v tv t = Some t'"
  shows "take (length (heap t)) (heap t') = heap t \<and> h_shown t' = h_shown t \<and>
         (\<forall>w. w \<noteq> v \<longrightarrow> env t' w = env t w)"
  using assms by (auto simp: ColumnDataSource_s_def bind_new_def split: option.splits obj.splits)

lemma show_s_frame:
  assumes "show_s fv t = Some t'"
  shows "heap t' = heap t \<and> env t' = env t"
  using assms by (auto simp: show_s_def split: option.splits obj.splits)

lemma cell3_h_run:
  assumes "env s ''apple'' = Some aa" and "aa < length (heap s)" and "heap s ! aa = Frame a"
    and "apple p = a"
  shows "cell3_h s =
     Some (s\<lparr>heap := heap s @ [Fig (fig (cell3 p)), Source (ColumnDataSource a)],
             env := (env s)(''fig'' \<mapsto> length (heap s),
                            ''transformed_apple'' \<mapsto> Suc (length (heap s))),
             h_shown := h_shown s @ [fig (cell3 p)]\<rparr>)"
  using assms by (simp add: cell3_h_def cell3_def Let_def stmt_defs nth_append list_update_append)

lemma cell4_h_run:
  assumes "env s ''apple'' = Some aa" and "aa < length (heap s)" and "heap s ! aa = Frame a"
    and "apple p = a"
  shows "cell4_h s =
     Some (s\<lparr>heap := heap s @ [Tuple [''pan'', ''wheel_zoom''], Fig (fig1 (cell4 p)),
                Source (ColumnDataSource a)],
             env := (env s)(''our_tools'' \<mapsto> length (heap s),
                            ''fig1'' \<mapsto> Suc (length (heap s)),
                            ''transformed_apple'' \<mapsto> Suc (Suc (length (heap s)))),
             h_shown := h_shown s @ [fig1 (cell4 p)]\<rparr>)"
  using assms by (simp add: cell4_h_def cell4_def Let_def stmt_defs nth_append list_update_append)

lemma cell5_h_run:
  assumes "env s ''apple'' = Some aa" and "aa < length (heap s)" and "heap s ! aa = Frame a"
    and "apple p = a"
  shows "cell5_h s =
     Some (s\<lparr>heap := heap s @ [Tuple [''pan'', ''wheel_zoom''], Fig (fig2 (cell5 p)),
                Source (ColumnDataSource a)],
             env := (env s)(''our_tools'' \<mapsto> length (heap s),
                            ''fig2'' \<mapsto> Suc (length (heap s)),
                            ''transformed_apple'' \<mapsto> Suc (Suc (length (heap s)))),
             h_shown := h_shown s @ [fig2 (cell5 p)]\<rparr>)"
  using assms by (simp add: cell5_h_def cell5_def Let_def stmt_defs nth_append list_update_append)

lemma cell6_h_run:
  assumes "env s ''apple'' = Some aa" and "aa < length (heap s)" and "heap s ! aa = Frame a"
    and "env s ''google'' = Some ag" and "ag < length (heap s)" and "heap s ! ag = Frame g"
    and "env s ''ibm'' = Some ai" and "ai < length (heap s)" and "heap s ! ai = Frame i"
    and "env s ''micro'' = Some am" and "am < length (heap s)" and "heap s ! am = Frame m"
    and "apple p = a" and "google p = g" and "ibm p = i" and "micro p = m"
  shows "cell6_h s =
     Some (s\<lparr>heap := heap s @ [Tuple [''pan'', ''wheel_zoom''], Fig (fig3 (cell6 p)),
                Source (ColumnDataSource a), Source (ColumnDataSource g),
                Source (ColumnDataSource i), Source (ColumnDataSource m)],
             env := (env s)(''our_tools'' \<mapsto> length (heap s),
                            ''fig3'' \<mapsto> Suc (length (heap s)),
                            ''transformed_apple'' \<mapsto> Suc (Suc (length (heap s))),
                            ''transformed_google'' \<mapsto> Suc (Suc (Suc (length (heap s)))),
                            ''transformed_ibm'' \<mapsto> Suc (Suc (Suc (Suc (length (heap s))))),
                            ''transformed_micro'' \<mapsto> Suc (Suc (Suc (Suc (Suc (length (heap s))))))),
             h_shown := h_shown s @ [fig3 (cell6 p)]\<rparr>)"
  using assms by (simp add: cell6_h_def cell6_def Let_def stmt_defs nth_append list_update_append)

lemma cell7_h_run:
  assumes "env s ''apple'' = Some aa" and "aa < length (heap s)" and "heap s ! aa = Frame a"
    and "env s ''google'' = Some ag" and "ag < length (heap s)" and "heap s ! ag = Frame g"
    and "env s ''ibm'' = Some ai" and "ai < length (heap s)" and "heap s ! ai = Frame i"
    and "env s ''micro'' = Some am" and "am < length (heap s)" and "heap s ! am = Frame m"
    and "apple p = a" and "google p = g" and "ibm p = i" and "micro p = m"
  shows "cell7_h s =
     Some (s\<lparr>heap := heap s @ [Tuple [''pan'', ''wheel_zoom''], Fig (fig4 (cell7 p)),
                Source (ColumnDataSource a), Source (ColumnDataSource g),
                Source (ColumnDataSource i), Source (ColumnDataSource m)],
             env := (env s)(''our_tools'' \<mapsto> length (heap s),
                            ''fig4'' \<mapsto> Suc (length (heap s)),
                            ''transformed_apple'' \<mapsto> Suc (Suc (length (heap s))),
                            ''transformed_google'' \<mapsto> Suc (Suc (Suc (length (heap s)))),
                            ''transformed_ibm'' \<mapsto> Suc (Suc (Suc (Suc (length (heap s))))),
                            ''transformed_micro'' \<mapsto> Suc (Suc (Suc (Suc (Suc (length (heap s))))))),
             h_shown := h_shown s @ [fig4 (cell7 p)]\<rparr>)"
  using assms by (simp add: cell7_h_def cell7_def Let_def stmt_defs nth_append list_update_append)

text \<open>What a plotting cell does to the heap, whichever of the five it is.\<close>

lemma cell3_h_step:
  assumes "map (deref s) [''apple'', ''google'', ''ibm'', ''micro''] =
             [Some (Frame a), Some (Frame g), Some (Frame i), Some (Frame m)]"
    and "apple p = a"
  shows "\<exists>s'. cell3_h s = Some s' \<and> take (length (heap s)) (heap s') = heap s \<and>
           (\<forall>v\<in>set [''apple'', ''google'', ''ibm'', ''micro'', ''fig1'', ''fig2'', ''fig3'', ''fig4''].
              env s' v = env s v) \<and>
           deref s' ''fig'' = Some (Fig (fig (cell3 p))) \<and>
           h_shown s' = h_shown s @ [fig (cell3 p)]"
proof -
  from assms(1) obtain aa where "env s ''apple'' = Some aa" "aa < length (heap s)"
    "heap s ! aa = Frame a"
    by (auto simp: deref_Frame)
  from cell3_h_run [OF this assms(2)] show ?thesis
    by (simp add: deref_def lookup_def nth_append)
qed

lemma cell4_h_step:
  assumes "map (deref s) [''apple'', ''google'', ''ibm'', ''micro''] =
             [Some (Frame a), Some (Frame g), Some (Frame i), Some (Frame m)]"
    and "apple p = a"
  shows "\<exists>s'. cell4_h s = Some s' \<and> take (length (heap s)) (heap s') = heap s \<and>
           (\<forall>v\<in>set [''apple'', ''google'', ''ibm'', ''micro'', ''fig'', ''fig2'', ''fig3'', ''fig4''].
              env s' v = env s v) \<and>
           deref s' ''fig1'' = Some (Fig (fig1 (cell4 p))) \<and>
           h_shown s' = h_shown s @ [fig1 (cell4 p)]"
proof -
  from assms(1) obtain aa where "env s ''apple'' = Some aa" "aa < length (heap s)"
    "heap s ! aa = Frame a"
    by (auto simp: deref_Frame)
  from cell4_h_run [OF this assms(2)] show ?thesis
    by (simp add: deref_def lookup_def nth_append)
qed

lemma cell5_h_step:
  assumes "map (deref s) [''apple'', ''google'', ''ibm'', ''micro''] =
             [Some (Frame a), Some (Frame g), Some (Frame i), Some (Frame m)]"
    and "apple p = a"
  shows "\<exists>s'. cell5_h s = Some s' \<and> take (length (heap s)) (heap s') = heap s \<and>
           (\<forall>v\<in>set [''apple'', ''google'', ''ibm'', ''micro'', ''fig'', ''fig1'', ''fig3'', ''fig4''].
              env s' v = env s v) \<and>
           deref s' ''fig2'' = Some (Fig (fig2 (cell5 p))) \<and>
           h_shown s' = h_shown s @ [fig2 (cell5 p)]"
proof -
  from assms(1) obtain aa where "env s ''apple'' = Some aa" "aa < length (heap s)"
    "heap s ! aa = Frame a"
    by (auto simp: deref_Frame)
  from cell5_h_run [OF this assms(2)] show ?thesis
    by (simp add: deref_def lookup_def nth_append)
qed

lemma cell6_h_step:
  assumes "map (deref s) [''apple'', ''google'', ''ibm'', ''micro''] =
             [Some (Frame a), Some (Frame g), Some (Frame i), Some (Frame m)]"
    and "apple p = a" and "google p = g" and "ibm p = i" and "micro p = m"
  shows "\<exists>s'. cell6_h s = Some s' \<and> take (length (heap s)) (heap s') = heap s \<and>
           (\<forall>v\<in>set [''apple'', ''google'', ''ibm'', ''micro'', ''fig'', ''fig1'', ''fig2'', ''fig4''].
              env s' v = env s v) \<and>
           deref s' ''fig3'' = Some (Fig (fig3 (cell6 p))) \<and>
           h_shown s' = h_shown s @ [fig3 (cell6 p)]"
proof -
  from assms(1) obtain aa ag ai am where
    "env s ''apple'' = Some aa" "aa < length (heap s)" "heap s ! aa = Frame a"
    "env s ''google'' = Some ag" "ag < length (heap s)" "heap s ! ag = Frame g"
    "env s ''ibm'' = Some ai" "ai < length (heap s)" "heap s ! ai = Frame i"
    "env s ''micro'' = Some am" "am < length (heap s)" "heap s ! am = Frame m"
    by (auto simp: deref_Frame)
  from cell6_h_run [OF this assms(2-5)] show ?thesis
    by (simp add: deref_def lookup_def nth_append)
qed

lemma cell7_h_step:
  assumes "map (deref s) [''apple'', ''google'', ''ibm'', ''micro''] =
             [Some (Frame a), Some (Frame g), Some (Frame i), Some (Frame m)]"
    and "apple p = a" and "google p = g" and "ibm p = i" and "micro p = m"
  shows "\<exists>s'. cell7_h s = Some s' \<and> take (length (heap s)) (heap s') = heap s \<and>
           (\<forall>v\<in>set [''apple'', ''google'', ''ibm'', ''micro'', ''fig'', ''fig1'', ''fig2'', ''fig3''].
              env s' v = env s v) \<and>
           deref s' ''fig4'' = Some (Fig (fig4 (cell7 p))) \<and>
           h_shown s' = h_shown s @ [fig4 (cell7 p)]"
proof -
  from assms(1) obtain aa ag ai am where
    "env s ''apple'' = Some aa" "aa < length (heap s)" "heap s ! aa = Frame a"
    "env s ''google'' = Some ag" "ag < length (heap s)" "heap s ! ag = Frame g"
    "env s ''ibm'' = Some ai" "ai < length (heap s)" "heap s ! ai = Frame i"
    "env s ''micro'' = Some am" "am < length (heap s)" "heap s ! am = Frame m"
    by (auto simp: deref_Frame)
  from cell7_h_run [OF this assms(2-5)] show ?thesis
    by (simp add: deref_def lookup_def nth_append)
qed

text \<open>
  Claim C8. Take any state in which the variables apple, google, ibm and micro refer to
  four tables, as they do once the dates are converted. Then the five plotting cells run
  through, and each of them only adds objects to the heap: every object that was there
  before the cell, the four tables among them and the figures and data sources of the
  earlier cells, is the same after it. At the end the four variables refer to the same
  addresses and the same tables, and the five figure variables to the figures the first
  embedding builds from these tables, which are also the figures shown. Of the single
  statements: a draw call and a tool attachment rebind nothing and change no object but
  the figure their variable refers to; wrapping a table in a data source changes no
  object that exists; display changes no object at all.
\<close>

theorem tables_unchanged_after_normalization:
  assumes "map (deref s) [''apple'', ''google'', ''ibm'', ''micro''] =
             [Some (Frame a), Some (Frame g), Some (Frame i), Some (Frame m)]"
  shows "(\<exists>s3 s4 s5 s6 s7.
           cell3_h s = Some s3 \<and> cell4_h s3 = Some s4 \<and> cell5_h s4 = Some s5 \<and>
           cell6_h s5 = Some s6 \<and> cell7_h s6 = Some s7 \<and> plots_h s = Some s7 \<and>
           take (length (heap s)) (heap s3) = heap s \<and>
           take (length (heap s3)) (heap s4) = heap s3 \<and>
           take (length (heap s4)) (heap s5) = heap s4 \<and>
           take (length (heap s5)) (heap s6) = heap s5 \<and>
           take (length (heap s6)) (heap s7) = heap s6 \<and>
           take (length (heap s)) (heap s7) = heap s \<and>
           map (env s7) [''apple'', ''google'', ''ibm'', ''micro''] =
             map (env s) [''apple'', ''google'', ''ibm'', ''micro''] \<and>
           map (deref s7) [''apple'', ''google'', ''ibm'', ''micro''] =
             [Some (Frame a), Some (Frame g), Some (Frame i), Some (Frame m)] \<and>
           map (deref s7) [''fig'', ''fig1'', ''fig2'', ''fig3'', ''fig4''] =
             map (\<lambda>f. Some (Fig (f (plots (with_tables a g i m))))) [fig, fig1, fig2, fig3, fig4] \<and>
           h_shown s7 =
             h_shown s @ map (\<lambda>f. f (plots (with_tables a g i m))) [fig, fig1, fig2, fig3, fig4]) \<and>
         (\<forall>fv xf yf sv kw t t'. line_s fv xf yf sv kw t = Some t' \<longrightarrow>
            env t' = env t \<and> length (heap t') = length (heap t) \<and>
            (\<forall>adr. env t fv \<noteq> Some adr \<longrightarrow> heap t' ! adr = heap t ! adr)) \<and>
         (\<forall>fv ht t t'. add_tools_s fv ht t = Some t' \<longrightarrow>
            env t' = env t \<and> length (heap t') = length (heap t) \<and>
            (\<forall>adr. env t fv \<noteq> Some adr \<longrightarrow> heap t' ! adr = heap t ! adr)) \<and>
         (\<forall>v tv t t'. ColumnDataSource_s v tv t = Some t' \<longrightarrow>
            take (length (heap t)) (heap t') = heap t) \<and>
         (\<forall>fv t t'. show_s fv t = Some t' \<longrightarrow> heap t' = heap t \<and> env t' = env t)"
proof -
  define P where "P = with_tables a g i m"
  have P: "apple P = a" "google P = g" "ibm P = i" "micro P = m"
    by (simp_all add: P_def with_tables_def)
  have figs: "fig (plots P) = fig (cell3 P)" "fig1 (plots P) = fig1 (cell4 (cell3 P))"
    "fig2 (plots P) = fig2 (cell5 (cell4 (cell3 P)))"
    "fig3 (plots P) = fig3 (cell6 (cell5 (cell4 (cell3 P))))"
    "fig4 (plots P) = fig4 (cell7 (cell6 (cell5 (cell4 (cell3 P)))))"
    by (rule plots_figures)+
  have keep: "map (deref t') [''apple'', ''google'', ''ibm'', ''micro''] =
                [Some (Frame a), Some (Frame g), Some (Frame i), Some (Frame m)]"
    if t: "take (length (heap t)) (heap t') = heap t"
      and e: "env t' ''apple'' = env t ''apple''" "env t' ''google'' = env t ''google''"
        "env t' ''ibm'' = env t ''ibm''" "env t' ''micro'' = env t ''micro''"
      and d: "map (deref t) [''apple'', ''google'', ''ibm'', ''micro''] =
                [Some (Frame a), Some (Frame g), Some (Frame i), Some (Frame m)]"
    for t t'
  proof -
    from d have d1: "deref t ''apple'' = Some (Frame a)" and d2: "deref t ''google'' = Some (Frame g)"
      and d3: "deref t ''ibm'' = Some (Frame i)" and d4: "deref t ''micro'' = Some (Frame m)"
      by simp_all
    note deref_extends [OF t e(1) d1] deref_extends [OF t e(2) d2]
      deref_extends [OF t e(3) d3] deref_extends [OF t e(4) d4]
    then show ?thesis by simp
  qed
  from cell3_h_step [OF assms, of "P"] P
  have "\<exists>s'. cell3_h s = Some s' \<and> take (length (heap s)) (heap s') = heap s \<and>
           (\<forall>v\<in>set [''apple'', ''google'', ''ibm'', ''micro'', ''fig1'', ''fig2'', ''fig3'', ''fig4'']. env s' v = env s v) \<and>
           deref s' ''fig'' = Some (Fig (fig (cell3 P))) \<and>
           h_shown s' = h_shown s @ [fig (cell3 P)]"
    by (simp only: cells_tables)
  then obtain s3 where c3: "cell3_h s = Some s3 \<and> take (length (heap s)) (heap s3) = heap s \<and>
           (\<forall>v\<in>set [''apple'', ''google'', ''ibm'', ''micro'', ''fig1'', ''fig2'', ''fig3'', ''fig4'']. env s3 v = env s v) \<and>
           deref s3 ''fig'' = Some (Fig (fig (cell3 P))) \<and>
           h_shown s3 = h_shown s @ [fig (cell3 P)]" ..
  note 3 = c3 [THEN conjunct1]
    and t3 = c3 [THEN conjunct2, THEN conjunct1]
    and e3 = c3 [THEN conjunct2, THEN conjunct2, THEN conjunct1]
    and d3 = c3 [THEN conjunct2, THEN conjunct2, THEN conjunct2, THEN conjunct1]
    and h3 = c3 [THEN conjunct2, THEN conjunct2, THEN conjunct2, THEN conjunct2]
  from e3 have a3: "env s3 ''apple'' = env s ''apple''" "env s3 ''google'' = env s ''google''"
    "env s3 ''ibm'' = env s ''ibm''" "env s3 ''micro'' = env s ''micro''"
    by simp_all
  note k3 = keep [OF t3 a3 assms]
  from cell4_h_step [OF k3, of "cell3 P"] P
  have "\<exists>s'. cell4_h s3 = Some s' \<and> take (length (heap s3)) (heap s') = heap s3 \<and>
           (\<forall>v\<in>set [''apple'', ''google'', ''ibm'', ''micro'', ''fig'', ''fig2'', ''fig3'', ''fig4'']. env s' v = env s3 v) \<and>
           deref s' ''fig1'' = Some (Fig (fig1 (cell4 (cell3 P)))) \<and>
           h_shown s' = h_shown s3 @ [fig1 (cell4 (cell3 P))]"
    by (simp only: cells_tables)
  then obtain s4 where c4: "cell4_h s3 = Some s4 \<and> take (length (heap s3)) (heap s4) = heap s3 \<and>
           (\<forall>v\<in>set [''apple'', ''google'', ''ibm'', ''micro'', ''fig'', ''fig2'', ''fig3'', ''fig4'']. env s4 v = env s3 v) \<and>
           deref s4 ''fig1'' = Some (Fig (fig1 (cell4 (cell3 P)))) \<and>
           h_shown s4 = h_shown s3 @ [fig1 (cell4 (cell3 P))]" ..
  note 4 = c4 [THEN conjunct1]
    and t4 = c4 [THEN conjunct2, THEN conjunct1]
    and e4 = c4 [THEN conjunct2, THEN conjunct2, THEN conjunct1]
    and d4 = c4 [THEN conjunct2, THEN conjunct2, THEN conjunct2, THEN conjunct1]
    and h4 = c4 [THEN conjunct2, THEN conjunct2, THEN conjunct2, THEN conjunct2]
  from e4 have a4: "env s4 ''apple'' = env s3 ''apple''" "env s4 ''google'' = env s3 ''google''"
    "env s4 ''ibm'' = env s3 ''ibm''" "env s4 ''micro'' = env s3 ''micro''"
    by simp_all
  note k4 = keep [OF t4 a4 k3]
  from cell5_h_step [OF k4, of "cell4 (cell3 P)"] P
  have "\<exists>s'. cell5_h s4 = Some s' \<and> take (length (heap s4)) (heap s') = heap s4 \<and>
           (\<forall>v\<in>set [''apple'', ''google'', ''ibm'', ''micro'', ''fig'', ''fig1'', ''fig3'', ''fig4'']. env s' v = env s4 v) \<and>
           deref s' ''fig2'' = Some (Fig (fig2 (cell5 (cell4 (cell3 P))))) \<and>
           h_shown s' = h_shown s4 @ [fig2 (cell5 (cell4 (cell3 P)))]"
    by (simp only: cells_tables)
  then obtain s5 where c5: "cell5_h s4 = Some s5 \<and> take (length (heap s4)) (heap s5) = heap s4 \<and>
           (\<forall>v\<in>set [''apple'', ''google'', ''ibm'', ''micro'', ''fig'', ''fig1'', ''fig3'', ''fig4'']. env s5 v = env s4 v) \<and>
           deref s5 ''fig2'' = Some (Fig (fig2 (cell5 (cell4 (cell3 P))))) \<and>
           h_shown s5 = h_shown s4 @ [fig2 (cell5 (cell4 (cell3 P)))]" ..
  note 5 = c5 [THEN conjunct1]
    and t5 = c5 [THEN conjunct2, THEN conjunct1]
    and e5 = c5 [THEN conjunct2, THEN conjunct2, THEN conjunct1]
    and d5 = c5 [THEN conjunct2, THEN conjunct2, THEN conjunct2, THEN conjunct1]
    and h5 = c5 [THEN conjunct2, THEN conjunct2, THEN conjunct2, THEN conjunct2]
  from e5 have a5: "env s5 ''apple'' = env s4 ''apple''" "env s5 ''google'' = env s4 ''google''"
    "env s5 ''ibm'' = env s4 ''ibm''" "env s5 ''micro'' = env s4 ''micro''"
    by simp_all
  note k5 = keep [OF t5 a5 k4]
  from cell6_h_step [OF k5, of "cell5 (cell4 (cell3 P))"] P
  have "\<exists>s'. cell6_h s5 = Some s' \<and> take (length (heap s5)) (heap s') = heap s5 \<and>
           (\<forall>v\<in>set [''apple'', ''google'', ''ibm'', ''micro'', ''fig'', ''fig1'', ''fig2'', ''fig4'']. env s' v = env s5 v) \<and>
           deref s' ''fig3'' = Some (Fig (fig3 (cell6 (cell5 (cell4 (cell3 P)))))) \<and>
           h_shown s' = h_shown s5 @ [fig3 (cell6 (cell5 (cell4 (cell3 P))))]"
    by (simp only: cells_tables)
  then obtain s6 where c6: "cell6_h s5 = Some s6 \<and> take (length (heap s5)) (heap s6) = heap s5 \<and>
           (\<forall>v\<in>set [''apple'', ''google'', ''ibm'', ''micro'', ''fig'', ''fig1'', ''fig2'', ''fig4'']. env s6 v = env s5 v) \<and>
           deref s6 ''fig3'' = Some (Fig (fig3 (cell6 (cell5 (cell4 (cell3 P)))))) \<and>
           h_shown s6 = h_shown s5 @ [fig3 (cell6 (cell5 (cell4 (cell3 P))))]" ..
  note 6 = c6 [THEN conjunct1]
    and t6 = c6 [THEN conjunct2, THEN conjunct1]
    and e6 = c6 [THEN conjunct2, THEN conjunct2, THEN conjunct1]
    and d6 = c6 [THEN conjunct2, THEN conjunct2, THEN conjunct2, THEN conjunct1]
    and h6 = c6 [THEN conjunct2, THEN conjunct2, THEN conjunct2, THEN conjunct2]
  from e6 have a6: "env s6 ''apple'' = env s5 ''apple''" "env s6 ''google'' = env s5 ''google''"
    "env s6 ''ibm'' = env s5 ''ibm''" "env s6 ''micro'' = env s5 ''micro''"
    by simp_all
  note k6 = keep [OF t6 a6 k5]
  from cell7_h_step [OF k6, of "cell6 (cell5 (cell4 (cell3 P)))"] P
  have "\<exists>s'. cell7_h s6 = Some s' \<and> take (length (heap s6)) (heap s') = heap s6 \<and>
           (\<forall>v\<in>set [''apple'', ''google'', ''ibm'', ''micro'', ''fig'', ''fig1'', ''fig2'', ''fig3'']. env s' v = env s6 v) \<and>
           deref s' ''fig4'' = Some (Fig (fig4 (cell7 (cell6 (cell5 (cell4 (cell3 P))))))) \<and>
           h_shown s' = h_shown s6 @ [fig4 (cell7 (cell6 (cell5 (cell4 (cell3 P)))))]"
    by (simp only: cells_tables)
  then obtain s7 where c7: "cell7_h s6 = Some s7 \<and> take (length (heap s6)) (heap s7) = heap s6 \<and>
           (\<forall>v\<in>set [''apple'', ''google'', ''ibm'', ''micro'', ''fig'', ''fig1'', ''fig2'', ''fig3'']. env s7 v = env s6 v) \<and>
           deref s7 ''fig4'' = Some (Fig (fig4 (cell7 (cell6 (cell5 (cell4 (cell3 P))))))) \<and>
           h_shown s7 = h_shown s6 @ [fig4 (cell7 (cell6 (cell5 (cell4 (cell3 P)))))]" ..
  note 7 = c7 [THEN conjunct1]
    and t7 = c7 [THEN conjunct2, THEN conjunct1]
    and e7 = c7 [THEN conjunct2, THEN conjunct2, THEN conjunct1]
    and d7 = c7 [THEN conjunct2, THEN conjunct2, THEN conjunct2, THEN conjunct1]
    and h7 = c7 [THEN conjunct2, THEN conjunct2, THEN conjunct2, THEN conjunct2]
  from e7 have a7: "env s7 ''apple'' = env s6 ''apple''" "env s7 ''google'' = env s6 ''google''"
    "env s7 ''ibm'' = env s6 ''ibm''" "env s7 ''micro'' = env s6 ''micro''"
    by simp_all
  note k7 = keep [OF t7 a7 k6]
  have run: "plots_h s = Some s7"
    by (simp add: plots_h_def 3 4 5 6 7)
  have t07: "take (length (heap s)) (heap s7) = heap s"
    using t3 t4 t5 t6 t7 by (blast intro: take_extends)
  have env07: "map (env s7) [''apple'', ''google'', ''ibm'', ''micro''] =
             map (env s) [''apple'', ''google'', ''ibm'', ''micro'']"
    using e3 e4 e5 e6 e7 by simp
  have f0: "deref s7 ''fig'' = Some (Fig (fig (plots P)))"
  proof -
    from d3 have "deref s4 ''fig'' = Some (Fig (fig (cell3 P)))"
      using e4 by (intro deref_extends [OF t4]) simp_all
    then have "deref s5 ''fig'' = Some (Fig (fig (cell3 P)))"
      using e5 by (intro deref_extends [OF t5]) simp_all
    then have "deref s6 ''fig'' = Some (Fig (fig (cell3 P)))"
      using e6 by (intro deref_extends [OF t6]) simp_all
    then have "deref s7 ''fig'' = Some (Fig (fig (cell3 P)))"
      using e7 by (intro deref_extends [OF t7]) simp_all
    then show ?thesis by (simp add: figs)
  qed
  have f1: "deref s7 ''fig1'' = Some (Fig (fig1 (plots P)))"
  proof -
    from d4 have "deref s5 ''fig1'' = Some (Fig (fig1 (cell4 (cell3 P))))"
      using e5 by (intro deref_extends [OF t5]) simp_all
    then have "deref s6 ''fig1'' = Some (Fig (fig1 (cell4 (cell3 P))))"
      using e6 by (intro deref_extends [OF t6]) simp_all
    then have "deref s7 ''fig1'' = Some (Fig (fig1 (cell4 (cell3 P))))"
      using e7 by (intro deref_extends [OF t7]) simp_all
    then show ?thesis by (simp add: figs)
  qed
  have f2: "deref s7 ''fig2'' = Some (Fig (fig2 (plots P)))"
  proof -
    from d5 have "deref s6 ''fig2'' = Some (Fig (fig2 (cell5 (cell4 (cell3 P)))))"
      using e6 by (intro deref_extends [OF t6]) simp_all
    then have "deref s7 ''fig2'' = Some (Fig (fig2 (cell5 (cell4 (cell3 P)))))"
      using e7 by (intro deref_extends [OF t7]) simp_all
    then show ?thesis by (simp add: figs)
  qed
  have f3: "deref s7 ''fig3'' = Some (Fig (fig3 (plots P)))"
  proof -
    from d6 have "deref s7 ''fig3'' = Some (Fig (fig3 (cell6 (cell5 (cell4 (cell3 P))))))"
      using e7 by (intro deref_extends [OF t7]) simp_all
    then show ?thesis by (simp add: figs)
  qed
  have f4: "deref s7 ''fig4'' = Some (Fig (fig4 (plots P)))"
    using d7 by (simp add: figs)
  have sh: "h_shown s7 =
      h_shown s @ map (\<lambda>f. f (plots P)) [fig, fig1, fig2, fig3, fig4]"
    by (simp add: h3 h4 h5 h6 h7 figs)
  have cells: "\<exists>s3 s4 s5 s6 s7.
           cell3_h s = Some s3 \<and> cell4_h s3 = Some s4 \<and> cell5_h s4 = Some s5 \<and>
           cell6_h s5 = Some s6 \<and> cell7_h s6 = Some s7 \<and> plots_h s = Some s7 \<and>
           take (length (heap s)) (heap s3) = heap s \<and>
           take (length (heap s3)) (heap s4) = heap s3 \<and>
           take (length (heap s4)) (heap s5) = heap s4 \<and>
           take (length (heap s5)) (heap s6) = heap s5 \<and>
           take (length (heap s6)) (heap s7) = heap s6 \<and>
           take (length (heap s)) (heap s7) = heap s \<and>
           map (env s7) [''apple'', ''google'', ''ibm'', ''micro''] =
             map (env s) [''apple'', ''google'', ''ibm'', ''micro''] \<and>
           map (deref s7) [''apple'', ''google'', ''ibm'', ''micro''] =
             [Some (Frame a), Some (Frame g), Some (Frame i), Some (Frame m)] \<and>
           map (deref s7) [''fig'', ''fig1'', ''fig2'', ''fig3'', ''fig4''] =
             map (\<lambda>f. Some (Fig (f (plots (with_tables a g i m))))) [fig, fig1, fig2, fig3, fig4] \<and>
           h_shown s7 =
             h_shown s @ map (\<lambda>f. f (plots (with_tables a g i m))) [fig, fig1, fig2, fig3, fig4]"
    using 3 4 5 6 7 run t3 t4 t5 t6 t7 t07 env07 k7 f0 f1 f2 f3 f4 sh
    unfolding P_def by (intro exI [of _ s3] exI [of _ s4] exI [of _ s5] exI [of _ s6] exI [of _ s7]) simp
  have ops: "(\<forall>fv xf yf sv kw t t'. line_s fv xf yf sv kw t = Some t' \<longrightarrow>
            env t' = env t \<and> length (heap t') = length (heap t) \<and>
            (\<forall>adr. env t fv \<noteq> Some adr \<longrightarrow> heap t' ! adr = heap t ! adr)) \<and>
         (\<forall>fv ht t t'. add_tools_s fv ht t = Some t' \<longrightarrow>
            env t' = env t \<and> length (heap t') = length (heap t) \<and>
            (\<forall>adr. env t fv \<noteq> Some adr \<longrightarrow> heap t' ! adr = heap t ! adr)) \<and>
         (\<forall>v tv t t'. ColumnDataSource_s v tv t = Some t' \<longrightarrow>
            take (length (heap t)) (heap t') = heap t) \<and>
         (\<forall>fv t t'. show_s fv t = Some t' \<longrightarrow> heap t' = heap t \<and> env t' = env t)"
    using line_s_frame add_tools_s_frame ColumnDataSource_s_frame show_s_frame by blast
  from cells ops show ?thesis by (rule conjI)
qed

theorem tables_unchanged_after_normalization_witness:
  "map (deref sample_hstate) [''apple'', ''google'', ''ibm'', ''micro''] =
     [Some (Frame (setitem AAPL_head ''date'' AAPL_head_dates)),
      Some (Frame (setitem AAPL_head ''date'' AAPL_head_dates)),
      Some (Frame (setitem AAPL_head ''date'' AAPL_head_dates)),
      Some (Frame (setitem AAPL_head ''date'' AAPL_head_dates))] \<and>
   (\<exists>s7. plots_h sample_hstate = Some s7 \<and>
      take 4 (heap s7) = heap sample_hstate \<and>
      map (deref s7) [''apple'', ''google'', ''ibm'', ''micro''] =
        [Some (Frame (setitem AAPL_head ''date'' AAPL_head_dates)),
         Some (Frame (setitem AAPL_head ''date'' AAPL_head_dates)),
         Some (Frame (setitem AAPL_head ''date'' AAPL_head_dates)),
         Some (Frame (setitem AAPL_head ''date'' AAPL_head_dates))])"
proof -
  have pre: "map (deref sample_hstate) [''apple'', ''google'', ''ibm'', ''micro''] =
     [Some (Frame (setitem AAPL_head ''date'' AAPL_head_dates)),
      Some (Frame (setitem AAPL_head ''date'' AAPL_head_dates)),
      Some (Frame (setitem AAPL_head ''date'' AAPL_head_dates)),
      Some (Frame (setitem AAPL_head ''date'' AAPL_head_dates))]"
    by (simp add: sample_hstate_def deref_def lookup_def)
  have len: "length (heap sample_hstate) = 4"
    by (simp add: sample_hstate_def)
  from tables_unchanged_after_normalization [OF pre, THEN conjunct1]
  obtain s7 where "plots_h sample_hstate = Some s7"
    and "take (length (heap sample_hstate)) (heap s7) = heap sample_hstate"
    and "map (deref s7) [''apple'', ''google'', ''ibm'', ''micro''] =
        [Some (Frame (setitem AAPL_head ''date'' AAPL_head_dates)),
         Some (Frame (setitem AAPL_head ''date'' AAPL_head_dates)),
         Some (Frame (setitem AAPL_head ''date'' AAPL_head_dates)),
         Some (Frame (setitem AAPL_head ''date'' AAPL_head_dates))]"
    by (elim exE conjE)
  with pre len show ?thesis
    by (intro conjI exI [of _ s7]) simp_all
qed

end
